theory Spec2Isabelle
  imports Main "HOL-Library.Word"
begin

unbundle bit_operations_syntax

section \<open>Python values used by main.py\<close>

text \<open>
  Python \<open>bytes\<close> are lists of 8-bit words. Python \<open>str\<close> values are \<open>string\<close>s; the
  ASCII text produced by the Base64 encoder is kept as a \<open>string\<close> as well, so that
  \<open>.decode('utf-8')\<close> on it and \<open>.encode('ascii')\<close> on an all-ASCII \<open>str\<close> do not change
  the representation.
\<close>

type_synonym bytes = "8 word list"

text \<open>
  Exceptions are values. \<open>BinasciiError\<close> is \<open>binascii.Error\<close>, a subclass of
  \<open>ValueError\<close>; \<open>FileNotFoundError\<close> is the \<open>OSError\<close> that \<open>open\<close> raises when a
  directory of the path is missing; \<open>OtherException\<close> stands for every other subclass of
  \<open>Exception\<close> (connection errors of the store client, failures of the engines).
\<close>

datatype exc_class =
  NameError | ValueError | BinasciiError | FileNotFoundError | OtherException

datatype py_exception = PyExc (exc_class: exc_class) (exc_str: string)

fun isinstance_ValueError :: "py_exception \<Rightarrow> bool" where
  "isinstance_ValueError (PyExc ValueError m) = True"
| "isinstance_ValueError (PyExc BinasciiError m) = True"
| "isinstance_ValueError (PyExc c m) = False"

section \<open>The transport encoding of keys: base64.urlsafe_b64encode / urlsafe_b64decode\<close>

text \<open>
  main.py encodes the key with \<open>urlsafe_b64encode(key).decode('utf-8')\<close> and decodes a
  caller's key with \<open>urlsafe_b64decode(key_b64)\<close>. Both are functions of Python's
  standard library; they are modelled here as the library defines them:
  \<open>urlsafe_b64encode(s) = b64encode(s).translate('+/' -> '-_')\<close>,
  \<open>urlsafe_b64decode(s) = b64decode(ascii(s).translate('-_' -> '+/'))\<close>, with
  \<open>b64encode = binascii.b2a_base64(newline=False)\<close> and
  \<open>b64decode = binascii.a2b_base64(strict_mode=False)\<close>.
\<close>

definition table_b2a_base64 :: string where
  "table_b2a_base64 =
     ''ABCDEFGHIJKLMNOPQRSTUVWXYZabcdefghijklmnopqrstuvwxyz0123456789+/''"

definition BASE64_PAD :: char where
  "BASE64_PAD = CHR ''=''"

fun index_of :: "'a \<Rightarrow> 'a list \<Rightarrow> nat option" where
  "index_of x [] = None"
| "index_of x (y # ys) = (if x = y then Some 0 else map_option Suc (index_of x ys))"

text \<open>The decoding table: the 6-bit value of an alphabet character, \<open>None\<close> for any other.\<close>

definition table_a2b_base64 :: "char \<Rightarrow> 8 word option" where
  "table_a2b_base64 c = map_option of_nat (index_of c table_b2a_base64)"

definition b2a_char :: "8 word \<Rightarrow> char" where
  "b2a_char v = table_b2a_base64 ! unat v"

text \<open>
  \<open>binascii.b2a_base64\<close>: every three bytes give four 6-bit groups; one or two trailing
  bytes give two or three characters and \<open>=\<close> padding up to four.
\<close>

fun b2a_base64 :: "bytes \<Rightarrow> string" where
  "b2a_base64 [] = []"
| "b2a_base64 [a] =
     [b2a_char (drop_bit 2 a), b2a_char (push_bit 4 (a AND 3)), BASE64_PAD, BASE64_PAD]"
| "b2a_base64 [a, b] =
     [b2a_char (drop_bit 2 a), b2a_char (push_bit 4 (a AND 3) OR drop_bit 4 b),
      b2a_char (push_bit 2 (b AND 15)), BASE64_PAD]"
| "b2a_base64 (a # b # c # rest) =
     [b2a_char (drop_bit 2 a), b2a_char (push_bit 4 (a AND 3) OR drop_bit 4 b),
      b2a_char (push_bit 2 (b AND 15) OR drop_bit 6 c), b2a_char (c AND 63)]
     @ b2a_base64 rest"

definition urlsafe_encode_translation :: "char \<Rightarrow> char" where
  "urlsafe_encode_translation c =
     (if c = CHR ''+'' then CHR ''-'' else if c = CHR ''/'' then CHR ''_'' else c)"

definition urlsafe_decode_translation :: "char \<Rightarrow> char" where
  "urlsafe_decode_translation c =
     (if c = CHR ''-'' then CHR ''+'' else if c = CHR ''_'' then CHR ''/'' else c)"

definition urlsafe_b64encode :: "bytes \<Rightarrow> string" where
  "urlsafe_b64encode s = map urlsafe_encode_translation (b2a_base64 s)"

function string_of_nat :: "nat \<Rightarrow> string" where
  "string_of_nat n =
     (if n < 10 then [char_of (48 + n)]
      else string_of_nat (n div 10) @ [char_of (48 + n mod 10)])"
  by pat_completeness auto
termination
  by (relation "measure id") auto

text \<open>
  \<open>binascii.a2b_base64\<close> without strict mode, as a loop over the input with the
  decoder's state: the position in the current group of four (\<open>quad_pos\<close>), the bits left
  over from the previous character (\<open>leftchar\<close>), the padding characters seen since the
  last data character (\<open>pads\<close>) and the bytes written so far. Characters outside the
  alphabet are skipped; the padding that completes a group ends the decoding; a group
  left incomplete at the end of the input is an error.
\<close>

fun a2b_base64_loop :: "nat \<Rightarrow> 8 word \<Rightarrow> nat \<Rightarrow> bytes \<Rightarrow> string \<Rightarrow> py_exception + bytes" where
  "a2b_base64_loop quad_pos leftchar pads bin_data [] =
     (if quad_pos \<noteq> 0 then
        (if quad_pos = 1 then
           Inl (PyExc BinasciiError
             (''Invalid base64-encoded string: number of data characters ('' @
              string_of_nat (length bin_data div 3 * 4 + 1) @
              '') cannot be 1 more than a multiple of 4''))
         else Inl (PyExc BinasciiError ''Incorrect padding''))
      else Inr bin_data)"
| "a2b_base64_loop quad_pos leftchar pads bin_data (this_ch # rest) =
     (if this_ch = BASE64_PAD then
        (if quad_pos \<ge> 2 \<and> quad_pos + (pads + 1) \<ge> 4 then Inr bin_data
         else a2b_base64_loop quad_pos leftchar (if quad_pos \<ge> 2 then pads + 1 else pads)
                bin_data rest)
      else
        (case table_a2b_base64 this_ch of
           None \<Rightarrow> a2b_base64_loop quad_pos leftchar pads bin_data rest
         | Some v \<Rightarrow>
             (if quad_pos = 0 then a2b_base64_loop 1 v 0 bin_data rest
              else if quad_pos = 1 then
                a2b_base64_loop 2 (v AND 15) 0
                  (bin_data @ [push_bit 2 leftchar OR drop_bit 4 v]) rest
              else if quad_pos = 2 then
                a2b_base64_loop 3 (v AND 3) 0
                  (bin_data @ [push_bit 4 leftchar OR drop_bit 2 v]) rest
              else
                a2b_base64_loop 0 0 0
                  (bin_data @ [push_bit 6 leftchar OR v]) rest)))"

definition a2b_base64 :: "string \<Rightarrow> py_exception + bytes" where
  "a2b_base64 s = a2b_base64_loop 0 0 0 [] s"

text \<open>\<open>_bytes_from_decode_data\<close> on a \<open>str\<close>: only ASCII characters are accepted.\<close>

definition is_ascii :: "char \<Rightarrow> bool" where
  "is_ascii c = (of_char c < (128 :: nat))"

definition bytes_from_decode_data :: "string \<Rightarrow> py_exception + string" where
  "bytes_from_decode_data s =
     (if list_all is_ascii s then Inr s
      else Inl (PyExc ValueError ''string argument should contain only ASCII characters''))"

definition urlsafe_b64decode :: "string \<Rightarrow> py_exception + bytes" where
  "urlsafe_b64decode s =
     (case bytes_from_decode_data s of
        Inl e \<Rightarrow> Inl e
      | Inr s' \<Rightarrow> a2b_base64 (map urlsafe_decode_translation s'))"

section \<open>Stored metadata\<close>

text \<open>
  The entry kept for a document has the shape
  \<open>{"pages": {page: [{"encrypted_text": ..., "bbox": [...]}, ...]}}\<close>. A page dictionary
  is an association list in insertion order. Bounding boxes are only copied by main.py,
  never computed with, so their type is a parameter. \<open>Metadata None\<close> is the empty
  dictionary \<open>{}\<close>, the only dictionary that Python treats as false.
\<close>

record 'b pii_item =
  encrypted_text :: string
  item_bbox :: 'b

type_synonym 'b pages = "(string \<times> 'b pii_item list) list"

datatype 'b metadata = Metadata (pages_entry: "'b pages option")

fun truthy :: "'b metadata option \<Rightarrow> bool" where
  "truthy None = False"
| "truthy (Some (Metadata None)) = False"
| "truthy (Some (Metadata (Some ps))) = True"

text \<open>
  \<open>json.dumps\<close> and \<open>json.loads\<close>: a JSON text is represented by the value it encodes,
  so that loading what was dumped gives the value back. A dumped value is never the empty
  string, so a text read from the store is false only when it is absent.
\<close>

datatype 'b json_text = json_dumps (json_loads: "'b metadata")

section \<open>The world a request runs in\<close>

text \<open>
  The Redis database maps a key to a value and the time (in seconds) at which it expires;
  \<open>now\<close> is the store's clock. \<open>redis_failure\<close> is \<open>Some e\<close> while the connection is broken
  and every command raises \<open>e\<close>. \<open>files\<close> holds what main.py itself writes to disk; the
  files the engines write are known to main.py only by the paths they return.
  \<open>directories\<close> holds the paths that name an existing directory; at start-up main.py
  creates \<open>temp_uploads\<close> and \<open>redacted_files\<close>.
\<close>

record 'b world =
  redis_db :: "string \<rightharpoonup> ('b json_text \<times> nat)"
  now :: nat
  redis_failure :: "py_exception option"
  files :: "string \<rightharpoonup> bytes"
  directories :: "string set"

definition redis_set :: "string \<Rightarrow> 'b json_text \<Rightarrow> nat \<Rightarrow> 'b world \<Rightarrow> py_exception + 'b world" where
  "redis_set name v ex w =
     (case redis_failure w of
        Some e \<Rightarrow> Inl e
      | None \<Rightarrow> Inr (w\<lparr>redis_db := (redis_db w)(name \<mapsto> (v, now w + ex))\<rparr>))"

definition redis_get :: "string \<Rightarrow> 'b world \<Rightarrow> py_exception + 'b json_text option" where
  "redis_get name w =
     (case redis_failure w of
        Some e \<Rightarrow> Inl e
      | None \<Rightarrow>
          Inr (case redis_db w name of
                 None \<Rightarrow> None
               | Some (v, expires_at) \<Rightarrow> if now w < expires_at then Some v else None))"

definition elapse :: "nat \<Rightarrow> 'b world \<Rightarrow> 'b world" where
  "elapse seconds w = w\<lparr>now := now w + seconds\<rparr>"

text \<open>
  The modules \<open>core.engine\<close> and \<open>core.security\<close> are imported by main.py; what their
  functions compute is taken as given. Each returns a value or raises.
\<close>

record 'b core =
  process_document_llm :: "string \<Rightarrow> int \<Rightarrow> bytes \<Rightarrow> py_exception + (string \<times> 'b metadata option)"
  process_document_classic :: "string \<Rightarrow> int \<Rightarrow> bytes \<Rightarrow> py_exception + (string \<times> 'b metadata option)"
  unredact_document :: "string \<Rightarrow> bytes \<Rightarrow> 'b metadata \<Rightarrow> py_exception + string"
  decrypt_text :: "bytes \<Rightarrow> bytes \<Rightarrow> py_exception + string"

section \<open>Requests and responses\<close>

record upload_file =
  filename :: string
  content_type :: string
  file_obj :: bytes

record file_response =
  path :: string
  media_type :: string
  response_filename :: string
  headers :: "(string \<times> string) list"

record decryption_request =
  document_id :: string
  decryption_key :: string

record 'b decrypted_pii_item =
  pii_text :: string
  bbox :: 'b

record 'b decryption_response =
  response_document_id :: string
  pages :: "(string \<times> 'b decrypted_pii_item list) list"

text \<open>
  A request ends with a response or with an error: an \<open>HTTPException\<close> raised by main.py
  (status code, detail and the headers passed to it, which main.py never passes), or an
  exception that no handler of main.py catches, which the framework answers with
  status 500.
\<close>

datatype http_error =
    HTTPException (status_code: nat) (detail: string) (error_headers: "(string \<times> string) list option")
  | Unhandled py_exception

text \<open>The error kinds of the specification, by status code.\<close>

datatype error_kind = SessionNotFound | InvalidKeyFormat | DecryptionFailed | ProcessingError

fun kind_of :: "http_error \<Rightarrow> error_kind" where
  "kind_of (HTTPException c d h) =
     (if c = 404 then SessionNotFound
      else if c = 400 then InvalidKeyFormat
      else if c = 403 then DecryptionFailed
      else ProcessingError)"
| "kind_of (Unhandled e) = ProcessingError"

section \<open>Constants of main.py and helpers of the standard library\<close>

definition TEMP_UPLOADS_DIR :: string where
  "TEMP_UPLOADS_DIR = ''temp_uploads''"

definition REDACTED_FILES_DIR :: string where
  "REDACTED_FILES_DIR = ''redacted_files''"

definition os_path_join :: "string \<Rightarrow> string \<Rightarrow> string" where
  "os_path_join a b =
     (if b \<noteq> [] \<and> hd b = CHR ''/'' then b
      else if a = [] \<or> last a = CHR ''/'' then a @ b
      else a @ ''/'' @ b)"

definition os_path_basename :: "string \<Rightarrow> string" where
  "os_path_basename p = rev (takeWhile (\<lambda>c. c \<noteq> CHR ''/'') (rev p))"

definition os_path_dirname :: "string \<Rightarrow> string" where
  "os_path_dirname p =
     (let head = rev (dropWhile (\<lambda>c. c \<noteq> CHR ''/'') (rev p))
      in if head \<noteq> [] \<and> \<not> list_all (\<lambda>c. c = CHR ''/'') head
         then rev (dropWhile (\<lambda>c. c = CHR ''/'') (rev head))
         else head)"

text \<open>
  \<open>with open(file_path, "wb") as buffer: shutil.copyfileobj(file.file, buffer)\<close>.
  Opening a file for writing raises \<open>FileNotFoundError\<close> unless the directory part of
  the path is empty (the working directory) or names an existing directory; an uploaded
  file name that contains \<open>/\<close> puts the path under a directory that does not exist. The
  message quotes the path as Python does for a path free of quotes and backslashes.
\<close>

definition parent_exists :: "string \<Rightarrow> 'b world \<Rightarrow> bool" where
  "parent_exists file_path w =
     (os_path_dirname file_path = [] \<or> os_path_dirname file_path \<in> directories w)"

definition open_wb :: "string \<Rightarrow> bytes \<Rightarrow> 'b world \<Rightarrow> py_exception + 'b world" where
  "open_wb file_path content w =
     (if parent_exists file_path w
      then Inr (w\<lparr>files := (files w)(file_path \<mapsto> content)\<rparr>)
      else Inl (PyExc FileNotFoundError
                  (''[Errno 2] No such file or directory: '' @ [CHR 0x27] @ file_path @
                   [CHR 0x27])))"

function str_replace :: "string \<Rightarrow> string \<Rightarrow> string \<Rightarrow> string" where
  "str_replace old new s =
     (if old = [] then new @ concat (map (\<lambda>c. c # new) s)
      else if s = [] then []
      else if take (length old) s = old then new @ str_replace old new (drop (length old) s)
      else hd s # str_replace old new (tl s))"
  by pat_completeness auto
termination
  by (relation "measure (\<lambda>(old, new, s). length s)") auto

definition encode_utf8 :: "string \<Rightarrow> bytes" where
  "encode_utf8 s = map (\<lambda>c. of_nat (of_char c)) s"

section \<open>main.py\<close>

text \<open>\<open>cleanup_files\<close>: remove every listed file that exists.\<close>

fun cleanup_files :: "string list \<Rightarrow> 'b world \<Rightarrow> 'b world" where
  "cleanup_files [] w = w"
| "cleanup_files (file_path # rest) w =
     cleanup_files rest
       (if files w file_path \<noteq> None then w\<lparr>files := (files w)(file_path := None)\<rparr> else w)"

text \<open>
  An endpoint takes what the request draws from outside (fresh UUID strings, the generated
  key) as arguments and returns its outcome, the \<open>cleanup_files\<close> tasks it added to
  \<open>background_tasks\<close> (each given by its list of paths) and the world it leaves. The
  upload is saved before the \<open>try\<close> block of each endpoint, so an exception of that
  write is handled by nothing in main.py.
\<close>

type_synonym ('r, 'b) outcome = "(http_error + 'r) \<times> string list list \<times> 'b world"

definition redact_llm_endpoint ::
  "'b core \<Rightarrow> string \<Rightarrow> bytes \<Rightarrow> string \<Rightarrow> upload_file \<Rightarrow> int \<Rightarrow> 'b world
     \<Rightarrow> (file_response, 'b) outcome" where
  "redact_llm_endpoint core uuid1 generated_key uuid2 upload severity w =
     (let unique_filename = uuid1 @ ''_'' @ filename upload;
          input_path = os_path_join TEMP_UPLOADS_DIR unique_filename
      in case open_wb input_path (file_obj upload) w of
           Inl e \<Rightarrow> (Inl (Unhandled e), [], w)
         | Inr w1 \<Rightarrow>
             (let key = generated_key;
                  document_id = uuid2
              in case process_document_llm core input_path severity key of
                   Inl e \<Rightarrow>
                     (Inl (HTTPException 500 (''An error occurred: '' @ exc_str e) None),
                      [[input_path]], w1)
                 | Inr (redacted_file_path, encrypted_metadata) \<Rightarrow>
                     (case (case encrypted_metadata of
                              None \<Rightarrow> Inr w1
                            | Some m \<Rightarrow>
                                if truthy encrypted_metadata
                                then redis_set document_id (json_dumps m) 86400 w1
                                else Inr w1) of
                        Inl e \<Rightarrow>
                          (Inl (HTTPException 500 (''An error occurred: '' @ exc_str e) None),
                           [[input_path]], w1)
                      | Inr w2 \<Rightarrow>
                          (Inr \<lparr>path = redacted_file_path,
                                media_type = content_type upload,
                                response_filename = os_path_basename redacted_file_path,
                                headers = [(''X-Document-ID'', document_id),
                                           (''X-Decryption-Key'', urlsafe_b64encode key)]\<rparr>,
                           [[input_path, redacted_file_path]], w2))))"

definition redact_classic_endpoint ::
  "'b core \<Rightarrow> string \<Rightarrow> bytes \<Rightarrow> string \<Rightarrow> upload_file \<Rightarrow> int \<Rightarrow> 'b world
     \<Rightarrow> (file_response, 'b) outcome" where
  "redact_classic_endpoint core uuid1 generated_key uuid2 upload severity w =
     (let unique_filename = uuid1 @ ''_'' @ filename upload;
          input_path = os_path_join TEMP_UPLOADS_DIR unique_filename
      in case open_wb input_path (file_obj upload) w of
           Inl e \<Rightarrow> (Inl (Unhandled e), [], w)
         | Inr w1 \<Rightarrow>
             (let key = generated_key;
                  document_id = uuid2
              in case process_document_classic core input_path severity key of
                   Inl e \<Rightarrow>
                     (Inl (HTTPException 500 (''An error occurred: '' @ exc_str e) None),
                      [[input_path]], w1)
                 | Inr (redacted_file_path, encrypted_metadata) \<Rightarrow>
                     (case (case encrypted_metadata of
                              None \<Rightarrow> Inr w1
                            | Some m \<Rightarrow>
                                if truthy encrypted_metadata
                                then redis_set document_id (json_dumps m) 86400 w1
                                else Inr w1) of
                        Inl e \<Rightarrow>
                          (Inl (HTTPException 500 (''An error occurred: '' @ exc_str e) None),
                           [[input_path]], w1)
                      | Inr w2 \<Rightarrow>
                          (Inr \<lparr>path = redacted_file_path,
                                media_type = content_type upload,
                                response_filename = os_path_basename redacted_file_path,
                                headers = [(''X-Document-ID'', document_id),
                                           (''X-Decryption-Key'', urlsafe_b64encode key)]\<rparr>,
                           [[input_path, redacted_file_path]], w2))))"

text \<open>
  The two loops of \<open>decrypt_endpoint\<close>: every item of every page is decrypted in order,
  and the first exception ends both loops.
\<close>

fun decrypt_items ::
  "(bytes \<Rightarrow> bytes \<Rightarrow> py_exception + string) \<Rightarrow> bytes \<Rightarrow> 'b pii_item list
     \<Rightarrow> py_exception + 'b decrypted_pii_item list" where
  "decrypt_items dec key [] = Inr []"
| "decrypt_items dec key (item # pii_items) =
     (case dec key (encode_utf8 (encrypted_text item)) of
        Inl e \<Rightarrow> Inl e
      | Inr decrypted_text \<Rightarrow>
          (case decrypt_items dec key pii_items of
             Inl e \<Rightarrow> Inl e
           | Inr rest \<Rightarrow> Inr (\<lparr>pii_text = decrypted_text, bbox = item_bbox item\<rparr> # rest)))"

fun decrypt_pages ::
  "(bytes \<Rightarrow> bytes \<Rightarrow> py_exception + string) \<Rightarrow> bytes \<Rightarrow> 'b pages
     \<Rightarrow> py_exception + (string \<times> 'b decrypted_pii_item list) list" where
  "decrypt_pages dec key [] = Inr []"
| "decrypt_pages dec key ((page_num, pii_items) # rest) =
     (case decrypt_items dec key pii_items of
        Inl e \<Rightarrow> Inl e
      | Inr decrypted \<Rightarrow>
          (case decrypt_pages dec key rest of
             Inl e \<Rightarrow> Inl e
           | Inr others \<Rightarrow> Inr ((page_num, decrypted) # others)))"

text \<open>
  \<open>decrypt_endpoint\<close> reads the module-level name \<open>ENCRYPTED_DATA_STORE\<close>, not the Redis
  client. Its first argument is what that name is bound to: \<open>None\<close> when the name is
  unbound, in which case the lookup raises \<open>NameError\<close> outside every \<open>try\<close>.
\<close>

definition decrypt_endpoint ::
  "(string \<rightharpoonup> 'b metadata) option \<Rightarrow> 'b core \<Rightarrow> decryption_request
     \<Rightarrow> http_error + 'b decryption_response" where
  "decrypt_endpoint data_store core request =
     (let key_b64 = decryption_key request in
      case data_store of
        None \<Rightarrow> Inl (Unhandled (PyExc NameError ''name 'ENCRYPTED_DATA_STORE' is not defined''))
      | Some store \<Rightarrow>
          (let encrypted_data = store (document_id request) in
           if \<not> truthy encrypted_data
           then Inl (HTTPException 404 ''Document ID not found.'' None)
           else
             (case urlsafe_b64decode key_b64 of
                Inl e \<Rightarrow> Inl (HTTPException 400 ''Invalid decryption key format.'' None)
              | Inr key \<Rightarrow>
                  (case decrypt_pages (decrypt_text core) key
                          (case encrypted_data of
                             Some (Metadata (Some ps)) \<Rightarrow> ps
                           | _ \<Rightarrow> []) of
                     Inl e \<Rightarrow>
                       if isinstance_ValueError e
                       then Inl (HTTPException 403
                                   ''Decryption failed. The provided key is incorrect.'' None)
                       else Inl (Unhandled e)
                   | Inr decrypted \<Rightarrow>
                       Inr \<lparr>response_document_id = document_id request,
                            pages = decrypted\<rparr>))))"

text \<open>
  main.py never assigns \<open>ENCRYPTED_DATA_STORE\<close> and none of its imports brings the name
  in: in the module as it is, the name is unbound.
\<close>

definition ENCRYPTED_DATA_STORE :: "(string \<rightharpoonup> 'b metadata) option" where
  "ENCRYPTED_DATA_STORE = None"

definition unredact_endpoint ::
  "'b core \<Rightarrow> string \<Rightarrow> upload_file \<Rightarrow> string \<Rightarrow> string \<Rightarrow> 'b world
     \<Rightarrow> (file_response, 'b) outcome" where
  "unredact_endpoint core uuid1 upload doc_id key_b64 w =
     (case redis_get doc_id w of
        Inl e \<Rightarrow> (Inl (Unhandled e), [], w)
      | Inr None \<Rightarrow>
          (Inl (HTTPException 404 ''Document ID not found or has expired.'' None), [], w)
      | Inr (Some encrypted_metadata_json) \<Rightarrow>
          (let encrypted_metadata = json_loads encrypted_metadata_json in
           case urlsafe_b64decode key_b64 of
             Inl e \<Rightarrow> (Inl (HTTPException 400 ''Invalid decryption key format.'' None), [], w)
           | Inr key \<Rightarrow>
               (let unique_filename = uuid1 @ ''_'' @ filename upload;
                    temp_redacted_path = os_path_join TEMP_UPLOADS_DIR unique_filename
                in case open_wb temp_redacted_path (file_obj upload) w of
                     Inl e \<Rightarrow> (Inl (Unhandled e), [], w)
                   | Inr w1 \<Rightarrow>
                       (case unredact_document core temp_redacted_path key encrypted_metadata of
                          Inl e \<Rightarrow>
                            (Inl (HTTPException 500
                                    (''An error occurred during un-redaction: '' @ exc_str e)
                                    None),
                             [[temp_redacted_path]], w1)
                        | Inr restored_file_path \<Rightarrow>
                            (Inr \<lparr>path = restored_file_path,
                                  media_type = content_type upload,
                                  response_filename =
                                    ''restored_'' @
                                    str_replace ''redacted_'' [] (filename upload),
                                  headers = []\<rparr>,
                             [[temp_redacted_path, restored_file_path]], w1)))))"

text \<open>
  The characters of the URL- and filesystem-safe alphabet. The encoder also emits the
  padding character.
\<close>

definition urlsafe_alphabet :: string where
  "urlsafe_alphabet =
     ''ABCDEFGHIJKLMNOPQRSTUVWXYZabcdefghijklmnopqrstuvwxyz0123456789-_''"

definition is_urlsafe_char :: "char \<Rightarrow> bool" where
  "is_urlsafe_char c = (c \<in> set urlsafe_alphabet \<or> c = BASE64_PAD)"

text \<open>
  The path a request saves its upload under: \<open>unique_filename\<close> joined to the upload
  directory, as each endpoint computes it.
\<close>

definition temp_path :: "string \<Rightarrow> upload_file \<Rightarrow> string" where
  "temp_path uuid1 upload = os_path_join TEMP_UPLOADS_DIR (uuid1 @ ''_'' @ filename upload)"

text \<open>The error kind a request ended with, \<open>None\<close> when it returned a response.\<close>

fun outcome_kind :: "http_error + 'r \<Rightarrow> error_kind option" where
  "outcome_kind (Inl err) = Some (kind_of err)"
| "outcome_kind (Inr r) = None"

text \<open>The response headers of a request: an error of main.py carries none.\<close>

fun outcome_headers :: "http_error + file_response \<Rightarrow> (string \<times> string) list" where
  "outcome_headers (Inl (HTTPException c d None)) = []"
| "outcome_headers (Inl (HTTPException c d (Some hs))) = hs"
| "outcome_headers (Inl (Unhandled e)) = []"
| "outcome_headers (Inr r) = headers r"

section \<open>Concrete sessions\<close>

text \<open>
  Values for running the endpoints: a key and its transport encoding, an upload, the
  metadata of one extracted item, and engines that extract that item, extract nothing,
  or raise. The restoring and decrypting functions accept \<open>session_key\<close> only.
\<close>

definition session_key :: bytes where
  "session_key = [1, 2, 3]"

definition extracted_metadata :: "int list metadata" where
  "extracted_metadata =
     Metadata (Some [(''0'', [\<lparr>encrypted_text = ''gAAAAABm'',
                               item_bbox = [72, 100, 200, 112]\<rparr>])])"

definition report_upload :: upload_file where
  "report_upload =
     \<lparr>filename = ''report.pdf'', content_type = ''application/pdf'',
      file_obj = [37, 80, 68, 70]\<rparr>"

definition redacted_upload :: upload_file where
  "redacted_upload =
     \<lparr>filename = ''redacted_report.pdf'', content_type = ''application/pdf'',
      file_obj = [37, 80, 68, 70]\<rparr>"

definition fresh_world :: "int list world" where
  "fresh_world =
     \<lparr>redis_db = Map.empty, now = 0, redis_failure = None, files = Map.empty,
      directories = {''temp_uploads'', ''redacted_files''}\<rparr>"

definition engine_with_items :: "int list core" where
  "engine_with_items =
     \<lparr>process_document_llm =
        (\<lambda>p s k. Inr (''redacted_files/redacted_report.pdf'', Some extracted_metadata)),
      process_document_classic =
        (\<lambda>p s k. Inr (''redacted_files/redacted_report.pdf'', Some extracted_metadata)),
      unredact_document =
        (\<lambda>p k m. if k = session_key then Inr ''redacted_files/restored_report.pdf''
                  else Inl (PyExc OtherException ''InvalidToken'')),
      decrypt_text =
        (\<lambda>k c. if k = session_key then Inr ''Alice''
                else Inl (PyExc ValueError ''Invalid key''))\<rparr>"

definition engine_without_items :: "int list core" where
  "engine_without_items =
     engine_with_items
       \<lparr>process_document_llm := (\<lambda>p s k. Inr (''redacted_files/redacted_report.pdf'', None)),
        process_document_classic :=
          (\<lambda>p s k. Inr (''redacted_files/redacted_report.pdf'', Some (Metadata None)))\<rparr>"

definition engine_raising :: "int list core" where
  "engine_raising =
     engine_with_items
       \<lparr>process_document_llm := (\<lambda>p s k. Inl (PyExc OtherException ''model unavailable'')),
        process_document_classic := (\<lambda>p s k. Inl (PyExc ValueError ''malformed document''))\<rparr>"

text \<open>The world after a redaction of \<open>report_upload\<close> stored one item under \<open>doc-1\<close>.\<close>

definition stored_world :: "int list world" where
  "stored_world =
     \<lparr>redis_db = [''doc-1'' \<mapsto> (json_dumps extracted_metadata, 86400)], now = 0,
      redis_failure = None,
      files = [''temp_uploads/u1_report.pdf'' \<mapsto> [37, 80, 68, 70]],
      directories = {''temp_uploads'', ''redacted_files''}\<rparr>"

definition disconnected_world :: "int list world" where
  "disconnected_world = fresh_world\<lparr>redis_failure := Some (PyExc OtherException ''Connection refused'')\<rparr>"

text \<open>An upload whose file name has a directory part.\<close>

definition nested_upload :: upload_file where
  "nested_upload =
     \<lparr>filename = ''sub/report.pdf'', content_type = ''application/pdf'',
      file_obj = [37, 80, 68, 70]\<rparr>"


section \<open>The restoring engine, from the specification\<close>

text \<open>
  The items a stored entry holds, over all its pages, and the decryption of one item as
  \<open>decrypt_endpoint\<close> calls it.
\<close>

definition stored_items :: "'b metadata \<Rightarrow> 'b pii_item list" where
  "stored_items m = (case pages_entry m of None \<Rightarrow> [] | Some ps \<Rightarrow> concat (map snd ps))"

definition item_fails :: "'b core \<Rightarrow> bytes \<Rightarrow> 'b pii_item \<Rightarrow> bool" where
  "item_fails core key item = isl (decrypt_text core key (encode_utf8 (encrypted_text item)))"

text \<open>
  Modelled from the spec: \<open>core.engine.unredact_document\<close> is not under src/. The
  specification (4.6, with the rule of 4.5) has it decrypt all stored items with the
  supplied key, and has the failure of any one item fail the whole restoration: no
  partly restored document is a valid result.
\<close>

definition fails_atomically :: "'b core \<Rightarrow> bool" where
  "fails_atomically core =
     (\<forall>p key m. (\<exists>item \<in> set (stored_items m). item_fails core key item) \<longrightarrow>
        isl (unredact_document core p key m))"

text \<open>
  Modelled from the spec: \<open>core.security\<close> and the encrypting half of \<open>core.engine\<close>
  are not under src/. The specification (3, 4.4, 4.5) has a stored session hold at least
  one item, each item's text encrypted with the session's key, and has decryption
  authenticated: under any other key the decryption of an item is detected as failed,
  never answered with other text.
\<close>

definition sealed_with :: "'b core \<Rightarrow> bytes \<Rightarrow> 'b metadata \<Rightarrow> bool" where
  "sealed_with core key m =
     (stored_items m \<noteq> [] \<and>
      (\<forall>k. k \<noteq> key \<longrightarrow> (\<forall>item \<in> set (stored_items m). item_fails core k item)))"

section \<open>Bytes and 6-bit groups\<close>

lemma mask_numerals:
  "(3 :: 8 word) = mask 2" "(15 :: 8 word) = mask 4" "(63 :: 8 word) = mask 6"
  by (simp_all add: mask_eq_exp_minus_1)

lemma bit_position_cases: "n < 8 \<Longrightarrow> n \<in> {0, 1, 2, 3, 4, 5, 6, 7 :: nat}"
  by auto

lemma byte_eq_iff:
  "(v :: 8 word) = w \<longleftrightarrow>
     (bit v 0 = bit w 0 \<and> bit v 1 = bit w 1 \<and> bit v 2 = bit w 2 \<and> bit v 3 = bit w 3 \<and>
      bit v 4 = bit w 4 \<and> bit v 5 = bit w 5 \<and> bit v 6 = bit w 6 \<and> bit v 7 = bit w 7)"
proof
  assume bits: "bit v 0 = bit w 0 \<and> bit v 1 = bit w 1 \<and> bit v 2 = bit w 2 \<and>
      bit v 3 = bit w 3 \<and> bit v 4 = bit w 4 \<and> bit v 5 = bit w 5 \<and> bit v 6 = bit w 6 \<and>
      bit v 7 = bit w 7"
  show "v = w"
  proof (rule bit_eqI)
    fix n
    assume "possible_bit TYPE(8 word) n"
    then have "n < 8" by simp
    then have "n \<in> {0, 1, 2, 3, 4, 5, 6, 7}" by (rule bit_position_cases)
    with bits show "bit v n = bit w n" by auto
  qed
qed simp

lemma first_byte:
  "push_bit 2 (drop_bit 2 a) OR drop_bit 4 (push_bit 4 (a AND 3) OR drop_bit 4 b) = (a :: 8 word)"
  unfolding mask_numerals by (simp add: byte_eq_iff bit_simps)

lemma second_byte:
  "push_bit 4 ((push_bit 4 (a AND 3) OR drop_bit 4 b) AND 15)
     OR drop_bit 2 (push_bit 2 (b AND 15) OR drop_bit 6 c) = (b :: 8 word)"
  unfolding mask_numerals by (simp add: byte_eq_iff bit_simps)

lemma third_byte:
  "push_bit 6 ((push_bit 2 (b AND 15) OR drop_bit 6 c) AND 3) OR (c AND 63) = (c :: 8 word)"
  unfolding mask_numerals by (simp add: byte_eq_iff bit_simps)

lemma first_byte_padded:
  "push_bit 2 (drop_bit 2 a) OR drop_bit 4 (push_bit 4 (a AND 3)) = (a :: 8 word)"
  unfolding mask_numerals by (simp add: byte_eq_iff bit_simps)

lemma second_byte_padded:
  "push_bit 4 ((push_bit 4 (a AND 3) OR drop_bit 4 b) AND 15)
     OR drop_bit 2 (push_bit 2 (b AND 15)) = (b :: 8 word)"
  unfolding mask_numerals by (simp add: byte_eq_iff bit_simps)

lemma six_bits_lt: "\<not> bit v 6 \<Longrightarrow> \<not> bit v 7 \<Longrightarrow> unat (v :: 8 word) < 64"
proof -
  assume high: "\<not> bit v 6" "\<not> bit v 7"
  then have "take_bit 6 v = v"
    by (simp add: byte_eq_iff bit_simps)
  moreover have "unat (take_bit 6 v) < 2 ^ 6"
    using take_bit_nat_less_exp [of 6 "unat v"] by (simp add: unsigned_take_bit_eq)
  ultimately show ?thesis by simp
qed

lemma group0_lt: "unat (drop_bit 2 (a :: 8 word)) < 64"
  by (rule six_bits_lt) (auto simp: bit_simps dest: bit_imp_le_length)

lemma group1_lt: "unat (push_bit 4 (a AND 3) OR drop_bit 4 (b :: 8 word)) < 64"
  unfolding mask_numerals by (rule six_bits_lt) (auto simp: bit_simps dest: bit_imp_le_length)

lemma group2_lt: "unat (push_bit 2 (b AND 15) OR drop_bit 6 (c :: 8 word)) < 64"
  unfolding mask_numerals by (rule six_bits_lt) (auto simp: bit_simps dest: bit_imp_le_length)

lemma group3_lt: "unat ((c :: 8 word) AND 63) < 64"
  unfolding mask_numerals by (rule six_bits_lt) (auto simp: bit_simps dest: bit_imp_le_length)

lemma group1_padded_lt: "unat (push_bit 4 ((a :: 8 word) AND 3)) < 64"
  unfolding mask_numerals by (rule six_bits_lt) (auto simp: bit_simps dest: bit_imp_le_length)

lemma group2_padded_lt: "unat (push_bit 2 ((b :: 8 word) AND 15)) < 64"
  unfolding mask_numerals by (rule six_bits_lt) (auto simp: bit_simps dest: bit_imp_le_length)

section \<open>The decoder inverts the encoder\<close>

lemma distinct_table: "distinct table_b2a_base64"
  by (simp add: table_b2a_base64_def)

lemma length_table: "length table_b2a_base64 = 64"
  by (simp add: table_b2a_base64_def)

lemma index_of_nth: "distinct xs \<Longrightarrow> n < length xs \<Longrightarrow> index_of (xs ! n) xs = Some n"
proof (induction xs arbitrary: n)
  case Nil
  then show ?case by simp
next
  case (Cons x xs)
  then show ?case by (cases n) auto
qed

lemma a2b_b2a_char: "unat v < 64 \<Longrightarrow> table_a2b_base64 (b2a_char v) = Some v"
  by (simp add: table_a2b_base64_def b2a_char_def index_of_nth distinct_table length_table)

lemma b2a_char_in_table: "unat v < 64 \<Longrightarrow> b2a_char v \<in> set table_b2a_base64"
  by (simp add: b2a_char_def length_table)

lemma pad_notin_table: "BASE64_PAD \<notin> set table_b2a_base64"
  by (simp add: BASE64_PAD_def table_b2a_base64_def)

lemma b2a_char_not_pad: "unat v < 64 \<Longrightarrow> b2a_char v \<noteq> BASE64_PAD"
  using b2a_char_in_table pad_notin_table by metis

lemma loop_at_0:
  "unat v < 64 \<Longrightarrow>
   a2b_base64_loop 0 l p out (b2a_char v # rest) = a2b_base64_loop 1 v 0 out rest"
  by (simp add: a2b_b2a_char b2a_char_not_pad)

lemma loop_at_1:
  "unat v < 64 \<Longrightarrow>
   a2b_base64_loop 1 l p out (b2a_char v # rest) =
   a2b_base64_loop 2 (v AND 15) 0 (out @ [push_bit 2 l OR drop_bit 4 v]) rest"
  by (simp add: a2b_b2a_char b2a_char_not_pad)

lemma loop_at_2:
  "unat v < 64 \<Longrightarrow>
   a2b_base64_loop 2 l p out (b2a_char v # rest) =
   a2b_base64_loop 3 (v AND 3) 0 (out @ [push_bit 4 l OR drop_bit 2 v]) rest"
  by (simp add: a2b_b2a_char b2a_char_not_pad)

lemma loop_at_3:
  "unat v < 64 \<Longrightarrow>
   a2b_base64_loop 3 l p out (b2a_char v # rest) =
   a2b_base64_loop 0 0 0 (out @ [push_bit 6 l OR v]) rest"
  by (simp add: a2b_b2a_char b2a_char_not_pad)

lemma loop_two_pads: "a2b_base64_loop 2 l 0 out [BASE64_PAD, BASE64_PAD] = Inr out"
  by simp

lemma loop_one_pad: "a2b_base64_loop 3 l 0 out [BASE64_PAD] = Inr out"
  by simp

lemma loop_b2a_base64: "a2b_base64_loop 0 l p out (b2a_base64 k) = Inr (out @ k)"
proof (induction k arbitrary: l p out rule: b2a_base64.induct)
  case 1
  show ?case by simp
next
  case (2 a)
  show ?case
    by (simp only: b2a_base64.simps loop_at_0 [OF group0_lt] loop_at_1 [OF group1_padded_lt]
        loop_two_pads first_byte_padded)
next
  case (3 a b)
  show ?case
    by (simp only: b2a_base64.simps loop_at_0 [OF group0_lt] loop_at_1 [OF group1_lt]
        loop_at_2 [OF group2_padded_lt] loop_one_pad first_byte second_byte_padded
        append_Cons append_Nil append_assoc)
next
  case (4 a b c rest)
  show ?case
    by (simp only: b2a_base64.simps loop_at_0 [OF group0_lt] loop_at_1 [OF group1_lt]
        loop_at_2 [OF group2_lt] loop_at_3 [OF group3_lt] first_byte second_byte third_byte
        4 append_Cons append_Nil append_assoc)
qed

lemma b2a_base64_chars:
  "c \<in> set (b2a_base64 k) \<Longrightarrow> c \<in> set table_b2a_base64 \<or> c = BASE64_PAD"
proof (induction k rule: b2a_base64.induct)
  case 1
  then show ?case by simp
next
  case (2 a)
  then show ?case
    using b2a_char_in_table [OF group0_lt] b2a_char_in_table [OF group1_padded_lt]
    by (auto simp only: b2a_base64.simps set_simps)
next
  case (3 a b)
  then show ?case
    using b2a_char_in_table [OF group0_lt] b2a_char_in_table [OF group1_lt]
      b2a_char_in_table [OF group2_padded_lt]
    by (auto simp only: b2a_base64.simps set_simps)
next
  case (4 a b c rest)
  then show ?case
    using b2a_char_in_table [OF group0_lt] b2a_char_in_table [OF group1_lt]
      b2a_char_in_table [OF group2_lt] b2a_char_in_table [OF group3_lt]
    by (auto simp only: b2a_base64.simps set_simps set_append)
qed

lemma translation_inverse:
  "c \<in> set table_b2a_base64 \<or> c = BASE64_PAD \<Longrightarrow>
   urlsafe_decode_translation (urlsafe_encode_translation c) = c"
  by (auto simp: table_b2a_base64_def BASE64_PAD_def urlsafe_decode_translation_def
      urlsafe_encode_translation_def)

lemma decode_translation_encode:
  "map urlsafe_decode_translation (urlsafe_b64encode k) = b2a_base64 k"
  unfolding urlsafe_b64encode_def map_map
  by (rule map_idI) (simp add: b2a_base64_chars translation_inverse)

lemma translation_urlsafe:
  "c \<in> set table_b2a_base64 \<or> c = BASE64_PAD \<Longrightarrow>
   is_urlsafe_char (urlsafe_encode_translation c)"
  by (auto simp: table_b2a_base64_def BASE64_PAD_def urlsafe_alphabet_def is_urlsafe_char_def
      urlsafe_encode_translation_def)

lemma urlsafe_b64encode_chars: "list_all is_urlsafe_char (urlsafe_b64encode k)"
  unfolding urlsafe_b64encode_def list_all_iff
  using b2a_base64_chars translation_urlsafe by auto

lemma urlsafe_char_is_ascii: "is_urlsafe_char c \<Longrightarrow> is_ascii c"
  by (auto simp: urlsafe_alphabet_def BASE64_PAD_def is_ascii_def is_urlsafe_char_def)

lemma urlsafe_b64encode_ascii: "list_all is_ascii (urlsafe_b64encode k)"
  using urlsafe_b64encode_chars [of k] urlsafe_char_is_ascii
  unfolding list_all_iff by blast

lemma decode_encode: "urlsafe_b64decode (urlsafe_b64encode k) = Inr k"
  by (simp add: urlsafe_b64decode_def bytes_from_decode_data_def urlsafe_b64encode_ascii
      decode_translation_encode a2b_base64_def loop_b2a_base64)

lemma length_b2a_base64: "length (b2a_base64 k) = 4 * ((length k + 2) div 3)"
proof (induction k rule: b2a_base64.induct)
  case (4 a b c rest)
  have "length (b2a_base64 (a # b # c # rest)) = 4 + length (b2a_base64 rest)"
    by simp
  also have "\<dots> = 4 + 4 * ((length rest + 2) div 3)"
    by (simp only: 4)
  also have "\<dots> = 4 * ((length (a # b # c # rest) + 2) div 3)"
    by (simp only: list.size) presburger
  finally show ?case .
qed simp_all

lemma length_urlsafe_b64encode: "length (urlsafe_b64encode k) = 4 * ((length k + 2) div 3)"
  by (simp add: urlsafe_b64encode_def length_b2a_base64)

section \<open>The paths through the endpoints\<close>

lemma redact_llm_engine_raises:
  assumes "process_document_llm core (temp_path file_uuid upload) severity key = Inl e"
    and "parent_exists (temp_path file_uuid upload) w"
  shows "redact_llm_endpoint core file_uuid key doc upload severity w =
    (Inl (HTTPException 500 (''An error occurred: '' @ exc_str e) None),
     [[temp_path file_uuid upload]],
     w\<lparr>files := (files w)(temp_path file_uuid upload \<mapsto> file_obj upload)\<rparr>)"
  using assms by (simp add: redact_llm_endpoint_def open_wb_def temp_path_def Let_def)

lemma redact_llm_nothing_extracted:
  assumes "process_document_llm core (temp_path file_uuid upload) severity key = Inr (p, md)"
    and "\<not> truthy md"
    and "parent_exists (temp_path file_uuid upload) w"
  shows "redact_llm_endpoint core file_uuid key doc upload severity w =
    (Inr \<lparr>path = p, media_type = content_type upload, response_filename = os_path_basename p,
          headers = [(''X-Document-ID'', doc), (''X-Decryption-Key'', urlsafe_b64encode key)]\<rparr>,
     [[temp_path file_uuid upload, p]],
     w\<lparr>files := (files w)(temp_path file_uuid upload \<mapsto> file_obj upload)\<rparr>)"
  using assms by (cases md) (simp_all add: redact_llm_endpoint_def open_wb_def temp_path_def Let_def)

lemma redact_llm_stored:
  assumes "process_document_llm core (temp_path file_uuid upload) severity key = Inr (p, Some m)"
    and "truthy (Some m)" and "redis_failure w = None"
    and "parent_exists (temp_path file_uuid upload) w"
  shows "redact_llm_endpoint core file_uuid key doc upload severity w =
    (Inr \<lparr>path = p, media_type = content_type upload, response_filename = os_path_basename p,
          headers = [(''X-Document-ID'', doc), (''X-Decryption-Key'', urlsafe_b64encode key)]\<rparr>,
     [[temp_path file_uuid upload, p]],
     w\<lparr>files := (files w)(temp_path file_uuid upload \<mapsto> file_obj upload),
       redis_db := (redis_db w)(doc \<mapsto> (json_dumps m, now w + 86400))\<rparr>)"
  using assms by (simp add: redact_llm_endpoint_def open_wb_def temp_path_def Let_def redis_set_def)

lemma redact_llm_store_raises:
  assumes "process_document_llm core (temp_path file_uuid upload) severity key = Inr (p, Some m)"
    and "truthy (Some m)" and "redis_failure w = Some e"
    and "parent_exists (temp_path file_uuid upload) w"
  shows "redact_llm_endpoint core file_uuid key doc upload severity w =
    (Inl (HTTPException 500 (''An error occurred: '' @ exc_str e) None),
     [[temp_path file_uuid upload]],
     w\<lparr>files := (files w)(temp_path file_uuid upload \<mapsto> file_obj upload)\<rparr>)"
  using assms by (simp add: redact_llm_endpoint_def open_wb_def temp_path_def Let_def redis_set_def)

lemma redact_classic_engine_raises:
  assumes "process_document_classic core (temp_path file_uuid upload) severity key = Inl e"
    and "parent_exists (temp_path file_uuid upload) w"
  shows "redact_classic_endpoint core file_uuid key doc upload severity w =
    (Inl (HTTPException 500 (''An error occurred: '' @ exc_str e) None),
     [[temp_path file_uuid upload]],
     w\<lparr>files := (files w)(temp_path file_uuid upload \<mapsto> file_obj upload)\<rparr>)"
  using assms by (simp add: redact_classic_endpoint_def open_wb_def temp_path_def Let_def)

lemma redact_classic_nothing_extracted:
  assumes "process_document_classic core (temp_path file_uuid upload) severity key = Inr (p, md)"
    and "\<not> truthy md"
    and "parent_exists (temp_path file_uuid upload) w"
  shows "redact_classic_endpoint core file_uuid key doc upload severity w =
    (Inr \<lparr>path = p, media_type = content_type upload, response_filename = os_path_basename p,
          headers = [(''X-Document-ID'', doc), (''X-Decryption-Key'', urlsafe_b64encode key)]\<rparr>,
     [[temp_path file_uuid upload, p]],
     w\<lparr>files := (files w)(temp_path file_uuid upload \<mapsto> file_obj upload)\<rparr>)"
  using assms by (cases md) (simp_all add: redact_classic_endpoint_def open_wb_def temp_path_def Let_def)

lemma redact_classic_stored:
  assumes "process_document_classic core (temp_path file_uuid upload) severity key = Inr (p, Some m)"
    and "truthy (Some m)" and "redis_failure w = None"
    and "parent_exists (temp_path file_uuid upload) w"
  shows "redact_classic_endpoint core file_uuid key doc upload severity w =
    (Inr \<lparr>path = p, media_type = content_type upload, response_filename = os_path_basename p,
          headers = [(''X-Document-ID'', doc), (''X-Decryption-Key'', urlsafe_b64encode key)]\<rparr>,
     [[temp_path file_uuid upload, p]],
     w\<lparr>files := (files w)(temp_path file_uuid upload \<mapsto> file_obj upload),
       redis_db := (redis_db w)(doc \<mapsto> (json_dumps m, now w + 86400))\<rparr>)"
  using assms by (simp add: redact_classic_endpoint_def open_wb_def temp_path_def Let_def redis_set_def)

lemma redact_classic_store_raises:
  assumes "process_document_classic core (temp_path file_uuid upload) severity key = Inr (p, Some m)"
    and "truthy (Some m)" and "redis_failure w = Some e"
    and "parent_exists (temp_path file_uuid upload) w"
  shows "redact_classic_endpoint core file_uuid key doc upload severity w =
    (Inl (HTTPException 500 (''An error occurred: '' @ exc_str e) None),
     [[temp_path file_uuid upload]],
     w\<lparr>files := (files w)(temp_path file_uuid upload \<mapsto> file_obj upload)\<rparr>)"
  using assms by (simp add: redact_classic_endpoint_def open_wb_def temp_path_def Let_def redis_set_def)

lemma unredact_store_raises:
  assumes "redis_get doc w = Inl e"
  shows "unredact_endpoint core file_uuid upload doc encoded_key w = (Inl (Unhandled e), [], w)"
  using assms by (simp add: unredact_endpoint_def)

lemma unredact_not_found:
  assumes "redis_get doc w = Inr None"
  shows "unredact_endpoint core file_uuid upload doc encoded_key w =
    (Inl (HTTPException 404 ''Document ID not found or has expired.'' None), [], w)"
  using assms by (simp add: unredact_endpoint_def)

lemma unredact_bad_key:
  assumes "redis_get doc w = Inr (Some j)" and "urlsafe_b64decode encoded_key = Inl e"
  shows "unredact_endpoint core file_uuid upload doc encoded_key w =
    (Inl (HTTPException 400 ''Invalid decryption key format.'' None), [], w)"
  using assms by (simp add: unredact_endpoint_def)

lemma unredact_engine_raises:
  assumes "redis_get doc w = Inr (Some j)" and "urlsafe_b64decode encoded_key = Inr key"
    and "unredact_document core (temp_path file_uuid upload) key (json_loads j) = Inl e"
    and "parent_exists (temp_path file_uuid upload) w"
  shows "unredact_endpoint core file_uuid upload doc encoded_key w =
    (Inl (HTTPException 500 (''An error occurred during un-redaction: '' @ exc_str e) None),
     [[temp_path file_uuid upload]],
     w\<lparr>files := (files w)(temp_path file_uuid upload \<mapsto> file_obj upload)\<rparr>)"
  using assms by (simp add: unredact_endpoint_def open_wb_def temp_path_def Let_def)

lemma unredact_restored:
  assumes "redis_get doc w = Inr (Some j)" and "urlsafe_b64decode encoded_key = Inr key"
    and "unredact_document core (temp_path file_uuid upload) key (json_loads j) = Inr p"
    and "parent_exists (temp_path file_uuid upload) w"
  shows "unredact_endpoint core file_uuid upload doc encoded_key w =
    (Inr \<lparr>path = p, media_type = content_type upload,
          response_filename = ''restored_'' @ str_replace ''redacted_'' [] (filename upload),
          headers = []\<rparr>,
     [[temp_path file_uuid upload, p]],
     w\<lparr>files := (files w)(temp_path file_uuid upload \<mapsto> file_obj upload)\<rparr>)"
  using assms by (simp add: unredact_endpoint_def open_wb_def temp_path_def Let_def)

lemma redact_llm_upload_fails:
  assumes "\<not> parent_exists (temp_path file_uuid upload) w"
  shows "redact_llm_endpoint core file_uuid key doc upload severity w =
    (Inl (Unhandled (PyExc FileNotFoundError
            (''[Errno 2] No such file or directory: '' @ [CHR 0x27] @
             temp_path file_uuid upload @ [CHR 0x27]))),
     [], w)"
  using assms by (simp add: redact_llm_endpoint_def open_wb_def temp_path_def Let_def)

lemma redact_classic_upload_fails:
  assumes "\<not> parent_exists (temp_path file_uuid upload) w"
  shows "redact_classic_endpoint core file_uuid key doc upload severity w =
    (Inl (Unhandled (PyExc FileNotFoundError
            (''[Errno 2] No such file or directory: '' @ [CHR 0x27] @
             temp_path file_uuid upload @ [CHR 0x27]))),
     [], w)"
  using assms by (simp add: redact_classic_endpoint_def open_wb_def temp_path_def Let_def)

lemma unredact_upload_fails:
  assumes "redis_get doc w = Inr (Some j)" and "urlsafe_b64decode encoded_key = Inr key"
    and "\<not> parent_exists (temp_path file_uuid upload) w"
  shows "unredact_endpoint core file_uuid upload doc encoded_key w =
    (Inl (Unhandled (PyExc FileNotFoundError
            (''[Errno 2] No such file or directory: '' @ [CHR 0x27] @
             temp_path file_uuid upload @ [CHR 0x27]))),
     [], w)"
  using assms by (simp add: unredact_endpoint_def open_wb_def temp_path_def Let_def)

lemma decrypt_unbound:
  "decrypt_endpoint ENCRYPTED_DATA_STORE core request =
     Inl (Unhandled (PyExc NameError ''name 'ENCRYPTED_DATA_STORE' is not defined''))"
  by (simp add: decrypt_endpoint_def ENCRYPTED_DATA_STORE_def)

section \<open>Values of the concrete sessions\<close>

lemma encoded_session_key: "urlsafe_b64encode session_key = ''AQID''"
  by (simp add: session_key_def urlsafe_b64encode_def b2a_char_def table_b2a_base64_def
      urlsafe_encode_translation_def)

lemma temp_path_report: "temp_path ''u1'' report_upload = ''temp_uploads/u1_report.pdf''"
  by (simp add: temp_path_def os_path_join_def TEMP_UPLOADS_DIR_def report_upload_def)

lemma temp_path_redacted:
  "temp_path ''u2'' redacted_upload = ''temp_uploads/u2_redacted_report.pdf''"
  by (simp add: temp_path_def os_path_join_def TEMP_UPLOADS_DIR_def redacted_upload_def)

lemma truthy_extracted: "truthy (Some extracted_metadata)"
  by (simp add: extracted_metadata_def)

lemma temp_uploads_exists:
  "''temp_uploads'' \<in> directories fresh_world"
  "''temp_uploads'' \<in> directories disconnected_world"
  "''temp_uploads'' \<in> directories stored_world"
  "''temp_uploads'' \<in> directories (elapse n stored_world)"
  by (simp_all add: fresh_world_def disconnected_world_def stored_world_def elapse_def)

lemma upload_paths_exist:
  "''temp_uploads'' \<in> directories w \<Longrightarrow> parent_exists (temp_path ''u1'' report_upload) w"
  "''temp_uploads'' \<in> directories w \<Longrightarrow> parent_exists (temp_path ''u2'' redacted_upload) w"
  by (simp_all add: temp_path_report temp_path_redacted parent_exists_def os_path_dirname_def)

lemma nested_path_missing:
  "\<not> parent_exists (temp_path ''u1'' nested_upload) fresh_world"
  "\<not> parent_exists (temp_path ''u2'' nested_upload) stored_world"
  by (simp_all add: temp_path_def os_path_join_def TEMP_UPLOADS_DIR_def nested_upload_def
      parent_exists_def os_path_dirname_def fresh_world_def stored_world_def)

lemma decoded_session_key: "urlsafe_b64decode ''AQID'' = Inr session_key"
  using decode_encode [of session_key] by (simp only: encoded_session_key)

lemma decoded_other_key: "urlsafe_b64decode ''AAAA'' = Inr [0, 0, 0]"
  by code_simp

lemma decoded_one_character:
  "urlsafe_b64decode ''A'' =
     Inl (PyExc BinasciiError
       (''Invalid base64-encoded string: number of data characters (1) '' @
        ''cannot be 1 more than a multiple of 4''))"
  by code_simp

lemma decoded_non_alphabet: "urlsafe_b64decode ''!!!!'' = Inr []"
  by code_simp

lemma other_keys_differ: "[0, 0, 0] \<noteq> session_key" "[] \<noteq> session_key"
  by (simp_all add: session_key_def)

lemma report_upload_fields:
  "filename report_upload = ''report.pdf''" "content_type report_upload = ''application/pdf''"
  "file_obj report_upload = [37, 80, 68, 70]"
  by (simp_all add: report_upload_def)

lemma redacted_upload_fields:
  "filename redacted_upload = ''redacted_report.pdf''"
  "content_type redacted_upload = ''application/pdf''"
  "file_obj redacted_upload = [37, 80, 68, 70]"
  by (simp_all add: redacted_upload_def)

lemma stored_lookup:
  "redis_get ''doc-1'' stored_world = Inr (Some (json_dumps extracted_metadata))"
  by (simp add: redis_get_def stored_world_def)

lemma stored_lookup_other: "redis_get ''doc-9'' stored_world = Inr None"
  by (simp add: redis_get_def stored_world_def)

lemma fresh_lookup: "redis_get d fresh_world = Inr None"
  by (simp add: redis_get_def fresh_world_def)

lemma elapsed_lookup:
  "redis_get ''doc-1'' (elapse 86399 stored_world) = Inr (Some (json_dumps extracted_metadata))"
  "redis_get ''doc-1'' (elapse 86400 stored_world) = Inr None"
  "redis_get ''doc-9'' (elapse 86400 stored_world) = Inr None"
  by (simp_all add: redis_get_def stored_world_def elapse_def)

lemma engine_with_items_fields:
  "process_document_llm engine_with_items p s k =
     Inr (''redacted_files/redacted_report.pdf'', Some extracted_metadata)"
  "process_document_classic engine_with_items p s k =
     Inr (''redacted_files/redacted_report.pdf'', Some extracted_metadata)"
  "unredact_document engine_with_items p k m =
     (if k = session_key then Inr ''redacted_files/restored_report.pdf''
      else Inl (PyExc OtherException ''InvalidToken''))"
  by (simp_all add: engine_with_items_def)

lemma engine_without_items_fields:
  "process_document_llm engine_without_items p s k =
     Inr (''redacted_files/redacted_report.pdf'', None)"
  "process_document_classic engine_without_items p s k =
     Inr (''redacted_files/redacted_report.pdf'', Some (Metadata None))"
  "unredact_document engine_without_items p k m =
     (if k = session_key then Inr ''redacted_files/restored_report.pdf''
      else Inl (PyExc OtherException ''InvalidToken''))"
  by (simp_all add: engine_without_items_def engine_with_items_def)

lemma engine_raising_fields:
  "process_document_llm engine_raising p s k = Inl (PyExc OtherException ''model unavailable'')"
  "process_document_classic engine_raising p s k = Inl (PyExc ValueError ''malformed document'')"
  by (simp_all add: engine_raising_def)

lemma redact_llm_fresh:
  "redact_llm_endpoint engine_with_items ''u1'' session_key ''doc-1'' report_upload 2 fresh_world =
     (Inr \<lparr>path = ''redacted_files/redacted_report.pdf'', media_type = ''application/pdf'',
           response_filename = ''redacted_report.pdf'',
           headers = [(''X-Document-ID'', ''doc-1''), (''X-Decryption-Key'', ''AQID'')]\<rparr>,
      [[''temp_uploads/u1_report.pdf'', ''redacted_files/redacted_report.pdf'']],
      stored_world)"
proof -
  have "redact_llm_endpoint engine_with_items ''u1'' session_key ''doc-1'' report_upload 2
          fresh_world =
    (Inr \<lparr>path = ''redacted_files/redacted_report.pdf'',
          media_type = content_type report_upload,
          response_filename = os_path_basename ''redacted_files/redacted_report.pdf'',
          headers = [(''X-Document-ID'', ''doc-1''),
                     (''X-Decryption-Key'', urlsafe_b64encode session_key)]\<rparr>,
     [[temp_path ''u1'' report_upload, ''redacted_files/redacted_report.pdf'']],
     fresh_world\<lparr>files := (files fresh_world)
                    (temp_path ''u1'' report_upload \<mapsto> file_obj report_upload),
       redis_db := (redis_db fresh_world)
                    (''doc-1'' \<mapsto> (json_dumps extracted_metadata, now fresh_world + 86400))\<rparr>)"
    by (rule redact_llm_stored [where m = extracted_metadata])
      (simp_all add: engine_with_items_fields truthy_extracted fresh_world_def
        upload_paths_exist temp_uploads_exists)
  then show ?thesis
    by (simp add: encoded_session_key temp_path_report os_path_basename_def
        report_upload_fields fresh_world_def stored_world_def)
qed

lemma redact_classic_fresh:
  "redact_classic_endpoint engine_with_items ''u1'' session_key ''doc-1'' report_upload 2
     fresh_world =
     (Inr \<lparr>path = ''redacted_files/redacted_report.pdf'', media_type = ''application/pdf'',
           response_filename = ''redacted_report.pdf'',
           headers = [(''X-Document-ID'', ''doc-1''), (''X-Decryption-Key'', ''AQID'')]\<rparr>,
      [[''temp_uploads/u1_report.pdf'', ''redacted_files/redacted_report.pdf'']],
      stored_world)"
proof -
  have "redact_classic_endpoint engine_with_items ''u1'' session_key ''doc-1'' report_upload 2
          fresh_world =
    (Inr \<lparr>path = ''redacted_files/redacted_report.pdf'',
          media_type = content_type report_upload,
          response_filename = os_path_basename ''redacted_files/redacted_report.pdf'',
          headers = [(''X-Document-ID'', ''doc-1''),
                     (''X-Decryption-Key'', urlsafe_b64encode session_key)]\<rparr>,
     [[temp_path ''u1'' report_upload, ''redacted_files/redacted_report.pdf'']],
     fresh_world\<lparr>files := (files fresh_world)
                    (temp_path ''u1'' report_upload \<mapsto> file_obj report_upload),
       redis_db := (redis_db fresh_world)
                    (''doc-1'' \<mapsto> (json_dumps extracted_metadata, now fresh_world + 86400))\<rparr>)"
    by (rule redact_classic_stored [where m = extracted_metadata])
      (simp_all add: engine_with_items_fields truthy_extracted fresh_world_def
        upload_paths_exist temp_uploads_exists)
  then show ?thesis
    by (simp add: encoded_session_key temp_path_report os_path_basename_def
        report_upload_fields fresh_world_def stored_world_def)
qed

lemma redact_llm_empty:
  "redact_llm_endpoint engine_without_items ''u1'' session_key ''doc-1'' report_upload 2
     fresh_world =
     (Inr \<lparr>path = ''redacted_files/redacted_report.pdf'', media_type = ''application/pdf'',
           response_filename = ''redacted_report.pdf'',
           headers = [(''X-Document-ID'', ''doc-1''), (''X-Decryption-Key'', ''AQID'')]\<rparr>,
      [[''temp_uploads/u1_report.pdf'', ''redacted_files/redacted_report.pdf'']],
      fresh_world\<lparr>files := [''temp_uploads/u1_report.pdf'' \<mapsto> [37, 80, 68, 70]]\<rparr>)"
proof -
  have "redact_llm_endpoint engine_without_items ''u1'' session_key ''doc-1'' report_upload 2
          fresh_world =
    (Inr \<lparr>path = ''redacted_files/redacted_report.pdf'',
          media_type = content_type report_upload,
          response_filename = os_path_basename ''redacted_files/redacted_report.pdf'',
          headers = [(''X-Document-ID'', ''doc-1''),
                     (''X-Decryption-Key'', urlsafe_b64encode session_key)]\<rparr>,
     [[temp_path ''u1'' report_upload, ''redacted_files/redacted_report.pdf'']],
     fresh_world\<lparr>files := (files fresh_world)
                    (temp_path ''u1'' report_upload \<mapsto> file_obj report_upload)\<rparr>)"
    by (rule redact_llm_nothing_extracted [where md = None])
      (simp_all add: engine_without_items_fields
        upload_paths_exist temp_uploads_exists)
  then show ?thesis
    by (simp add: encoded_session_key temp_path_report os_path_basename_def
        report_upload_fields fresh_world_def)
qed

lemma redact_classic_empty:
  "redact_classic_endpoint engine_without_items ''u1'' session_key ''doc-1'' report_upload 2
     fresh_world =
     (Inr \<lparr>path = ''redacted_files/redacted_report.pdf'', media_type = ''application/pdf'',
           response_filename = ''redacted_report.pdf'',
           headers = [(''X-Document-ID'', ''doc-1''), (''X-Decryption-Key'', ''AQID'')]\<rparr>,
      [[''temp_uploads/u1_report.pdf'', ''redacted_files/redacted_report.pdf'']],
      fresh_world\<lparr>files := [''temp_uploads/u1_report.pdf'' \<mapsto> [37, 80, 68, 70]]\<rparr>)"
proof -
  have "redact_classic_endpoint engine_without_items ''u1'' session_key ''doc-1'' report_upload
          2 fresh_world =
    (Inr \<lparr>path = ''redacted_files/redacted_report.pdf'',
          media_type = content_type report_upload,
          response_filename = os_path_basename ''redacted_files/redacted_report.pdf'',
          headers = [(''X-Document-ID'', ''doc-1''),
                     (''X-Decryption-Key'', urlsafe_b64encode session_key)]\<rparr>,
     [[temp_path ''u1'' report_upload, ''redacted_files/redacted_report.pdf'']],
     fresh_world\<lparr>files := (files fresh_world)
                    (temp_path ''u1'' report_upload \<mapsto> file_obj report_upload)\<rparr>)"
    by (rule redact_classic_nothing_extracted [where md = "Some (Metadata None)"])
      (simp_all add: engine_without_items_fields
        upload_paths_exist temp_uploads_exists)
  then show ?thesis
    by (simp add: encoded_session_key temp_path_report os_path_basename_def
        report_upload_fields fresh_world_def)
qed

lemma redact_llm_disconnected:
  "redact_llm_endpoint engine_with_items ''u1'' session_key ''doc-1'' report_upload 2
     disconnected_world =
     (Inl (HTTPException 500 ''An error occurred: Connection refused'' None),
      [[''temp_uploads/u1_report.pdf'']],
      disconnected_world\<lparr>files := [''temp_uploads/u1_report.pdf'' \<mapsto> [37, 80, 68, 70]]\<rparr>)"
proof -
  have "redact_llm_endpoint engine_with_items ''u1'' session_key ''doc-1'' report_upload 2
          disconnected_world =
    (Inl (HTTPException 500
            (''An error occurred: '' @ exc_str (PyExc OtherException ''Connection refused''))
            None),
     [[temp_path ''u1'' report_upload]],
     disconnected_world\<lparr>files := (files disconnected_world)
                    (temp_path ''u1'' report_upload \<mapsto> file_obj report_upload)\<rparr>)"
    by (rule redact_llm_store_raises [where m = extracted_metadata])
      (simp_all add: engine_with_items_fields truthy_extracted disconnected_world_def
        upload_paths_exist temp_uploads_exists)
  then show ?thesis
    by (simp add: temp_path_report report_upload_fields disconnected_world_def fresh_world_def)
qed

lemma redact_classic_disconnected:
  "redact_classic_endpoint engine_with_items ''u1'' session_key ''doc-1'' report_upload 2
     disconnected_world =
     (Inl (HTTPException 500 ''An error occurred: Connection refused'' None),
      [[''temp_uploads/u1_report.pdf'']],
      disconnected_world\<lparr>files := [''temp_uploads/u1_report.pdf'' \<mapsto> [37, 80, 68, 70]]\<rparr>)"
proof -
  have "redact_classic_endpoint engine_with_items ''u1'' session_key ''doc-1'' report_upload 2
          disconnected_world =
    (Inl (HTTPException 500
            (''An error occurred: '' @ exc_str (PyExc OtherException ''Connection refused''))
            None),
     [[temp_path ''u1'' report_upload]],
     disconnected_world\<lparr>files := (files disconnected_world)
                    (temp_path ''u1'' report_upload \<mapsto> file_obj report_upload)\<rparr>)"
    by (rule redact_classic_store_raises [where m = extracted_metadata])
      (simp_all add: engine_with_items_fields truthy_extracted disconnected_world_def
        upload_paths_exist temp_uploads_exists)
  then show ?thesis
    by (simp add: temp_path_report report_upload_fields disconnected_world_def fresh_world_def)
qed

lemma unredact_stored_right_key:
  assumes "redis_get ''doc-1'' w = Inr (Some (json_dumps extracted_metadata))"
    and "urlsafe_b64decode encoded = Inr session_key"
    and "''temp_uploads'' \<in> directories w"
  shows "unredact_endpoint engine_with_items ''u2'' redacted_upload ''doc-1'' encoded w =
     (Inr \<lparr>path = ''redacted_files/restored_report.pdf'', media_type = ''application/pdf'',
           response_filename = ''restored_report.pdf'', headers = []\<rparr>,
      [[''temp_uploads/u2_redacted_report.pdf'', ''redacted_files/restored_report.pdf'']],
      w\<lparr>files := (files w)(''temp_uploads/u2_redacted_report.pdf'' \<mapsto> [37, 80, 68, 70])\<rparr>)"
proof -
  have "str_replace ''redacted_'' [] ''redacted_report.pdf'' = ''report.pdf''"
    by simp
  moreover have "unredact_endpoint engine_with_items ''u2'' redacted_upload ''doc-1'' encoded w =
    (Inr \<lparr>path = ''redacted_files/restored_report.pdf'',
          media_type = content_type redacted_upload,
          response_filename =
            ''restored_'' @ str_replace ''redacted_'' [] (filename redacted_upload),
          headers = []\<rparr>,
     [[temp_path ''u2'' redacted_upload, ''redacted_files/restored_report.pdf'']],
     w\<lparr>files := (files w)(temp_path ''u2'' redacted_upload \<mapsto> file_obj redacted_upload)\<rparr>)"
    using assms(1, 2)
    by (rule unredact_restored)
      (simp_all add: engine_with_items_fields upload_paths_exist assms(3))
  ultimately show ?thesis
    by (simp only: temp_path_redacted redacted_upload_fields) simp
qed

lemma unredact_stored_other_key:
  "unredact_endpoint engine_with_items ''u2'' redacted_upload ''doc-1'' ''AAAA'' stored_world =
     (Inl (HTTPException 500 ''An error occurred during un-redaction: InvalidToken'' None),
      [[''temp_uploads/u2_redacted_report.pdf'']],
      stored_world\<lparr>files := (files stored_world)
                      (''temp_uploads/u2_redacted_report.pdf'' \<mapsto> [37, 80, 68, 70])\<rparr>)"
proof -
  have "unredact_endpoint engine_with_items ''u2'' redacted_upload ''doc-1'' ''AAAA''
          stored_world =
    (Inl (HTTPException 500
            (''An error occurred during un-redaction: '' @
             exc_str (PyExc OtherException ''InvalidToken'')) None),
     [[temp_path ''u2'' redacted_upload]],
     stored_world\<lparr>files := (files stored_world)
                     (temp_path ''u2'' redacted_upload \<mapsto> file_obj redacted_upload)\<rparr>)"
    using stored_lookup decoded_other_key
    by (rule unredact_engine_raises)
      (simp_all add: engine_with_items_fields other_keys_differ upload_paths_exist
        temp_uploads_exists)
  then show ?thesis
    by (simp add: temp_path_redacted redacted_upload_fields)
qed

lemma unredact_stored_non_alphabet_key:
  "unredact_endpoint engine_with_items ''u2'' redacted_upload ''doc-1'' ''!!!!'' stored_world =
     (Inl (HTTPException 500 ''An error occurred during un-redaction: InvalidToken'' None),
      [[''temp_uploads/u2_redacted_report.pdf'']],
      stored_world\<lparr>files := (files stored_world)
                      (''temp_uploads/u2_redacted_report.pdf'' \<mapsto> [37, 80, 68, 70])\<rparr>)"
proof -
  have "unredact_endpoint engine_with_items ''u2'' redacted_upload ''doc-1'' ''!!!!''
          stored_world =
    (Inl (HTTPException 500
            (''An error occurred during un-redaction: '' @
             exc_str (PyExc OtherException ''InvalidToken'')) None),
     [[temp_path ''u2'' redacted_upload]],
     stored_world\<lparr>files := (files stored_world)
                     (temp_path ''u2'' redacted_upload \<mapsto> file_obj redacted_upload)\<rparr>)"
    using stored_lookup decoded_non_alphabet
    by (rule unredact_engine_raises)
      (simp_all add: engine_with_items_fields other_keys_differ upload_paths_exist
        temp_uploads_exists)
  then show ?thesis
    by (simp add: temp_path_redacted redacted_upload_fields)
qed

lemma redact_classic_raising:
  "redact_classic_endpoint engine_raising ''u1'' session_key ''doc-1'' report_upload 2 fresh_world =
     (Inl (HTTPException 500 ''An error occurred: malformed document'' None),
      [[''temp_uploads/u1_report.pdf'']],
      fresh_world\<lparr>files := [''temp_uploads/u1_report.pdf'' \<mapsto> [37, 80, 68, 70]]\<rparr>)"
proof -
  have "redact_classic_endpoint engine_raising ''u1'' session_key ''doc-1'' report_upload 2
          fresh_world =
    (Inl (HTTPException 500
            (''An error occurred: '' @ exc_str (PyExc ValueError ''malformed document'')) None),
     [[temp_path ''u1'' report_upload]],
     fresh_world\<lparr>files := (files fresh_world)
                    (temp_path ''u1'' report_upload \<mapsto> file_obj report_upload)\<rparr>)"
    by (rule redact_classic_engine_raises)
      (simp_all add: engine_raising_fields upload_paths_exist temp_uploads_exists)
  then show ?thesis
    by (simp add: temp_path_report report_upload_fields fresh_world_def)
qed

lemma redact_llm_raising:
  "redact_llm_endpoint engine_raising ''u1'' session_key ''doc-1'' report_upload 2 fresh_world =
     (Inl (HTTPException 500 ''An error occurred: model unavailable'' None),
      [[''temp_uploads/u1_report.pdf'']],
      fresh_world\<lparr>files := [''temp_uploads/u1_report.pdf'' \<mapsto> [37, 80, 68, 70]]\<rparr>)"
proof -
  have "redact_llm_endpoint engine_raising ''u1'' session_key ''doc-1'' report_upload 2
          fresh_world =
    (Inl (HTTPException 500
            (''An error occurred: '' @ exc_str (PyExc OtherException ''model unavailable''))
            None),
     [[temp_path ''u1'' report_upload]],
     fresh_world\<lparr>files := (files fresh_world)
                    (temp_path ''u1'' report_upload \<mapsto> file_obj report_upload)\<rparr>)"
    by (rule redact_llm_engine_raises)
      (simp_all add: engine_raising_fields upload_paths_exist temp_uploads_exists)
  then show ?thesis
    by (simp add: temp_path_report report_upload_fields fresh_world_def)
qed




lemma decoded_with_stray_character: "urlsafe_b64decode ''AQID!'' = Inr session_key"
  unfolding session_key_def by code_simp

text \<open>
  An uploaded file name with a directory part: the upload cannot be saved, and the request
  ends with the unhandled \<open>FileNotFoundError\<close> before the engine is called.
\<close>

lemma redact_llm_nested_upload:
  "redact_llm_endpoint engine_with_items ''u1'' session_key ''doc-1'' nested_upload 2 fresh_world =
     (Inl (Unhandled (PyExc FileNotFoundError
        (''[Errno 2] No such file or directory: '' @ [CHR 0x27] @
         ''temp_uploads/u1_sub/report.pdf'' @ [CHR 0x27]))),
      [], fresh_world)"
  using redact_llm_upload_fails [OF nested_path_missing(1), of engine_with_items session_key
      "''doc-1''" 2]
  by (simp add: temp_path_def os_path_join_def TEMP_UPLOADS_DIR_def nested_upload_def)

lemma unredact_nested_upload:
  "unredact_endpoint engine_with_items ''u2'' nested_upload ''doc-1'' ''AQID'' stored_world =
     (Inl (Unhandled (PyExc FileNotFoundError
        (''[Errno 2] No such file or directory: '' @ [CHR 0x27] @
         ''temp_uploads/u2_sub/report.pdf'' @ [CHR 0x27]))),
      [], stored_world)"
  using unredact_upload_fails [OF stored_lookup decoded_session_key nested_path_missing(2),
      of engine_with_items]
  by (simp add: temp_path_def os_path_join_def TEMP_UPLOADS_DIR_def nested_upload_def)

section \<open>General facts about the endpoints\<close>

lemma redact_llm_error:
  assumes "fst (redact_llm_endpoint core file_uuid key doc upload severity w) = Inl err"
  shows "outcome_headers (fst (redact_llm_endpoint core file_uuid key doc upload severity w)) =
           [] \<and>
         redis_db (snd (snd (redact_llm_endpoint core file_uuid key doc upload severity w))) =
           redis_db w"
proof (cases "parent_exists (temp_path file_uuid upload) w")
  case False
  from redact_llm_upload_fails [OF False] show ?thesis by simp
next
  case saved: True
  show ?thesis
  proof (cases "process_document_llm core (temp_path file_uuid upload) severity key")
    case (Inl e)
    from redact_llm_engine_raises [OF Inl saved] show ?thesis by simp
  next
    case (Inr r)
    obtain p md where r: "r = (p, md)" by (cases r)
    show ?thesis
    proof (cases "truthy md")
      case False
      from redact_llm_nothing_extracted [OF Inr [unfolded r] False saved] assms
      show ?thesis by simp
    next
      case True
      then obtain m where md: "md = Some m" by (cases md) auto
      show ?thesis
      proof (cases "redis_failure w")
        case None
        from redact_llm_stored [OF Inr [unfolded r md] True [unfolded md] None saved] assms
        show ?thesis by simp
      next
        case (Some e)
        from redact_llm_store_raises [OF Inr [unfolded r md] True [unfolded md] Some saved]
        show ?thesis by simp
      qed
    qed
  qed
qed

lemma redact_classic_error:
  assumes "fst (redact_classic_endpoint core file_uuid key doc upload severity w) = Inl err"
  shows "outcome_headers
           (fst (redact_classic_endpoint core file_uuid key doc upload severity w)) = [] \<and>
         redis_db (snd (snd (redact_classic_endpoint core file_uuid key doc upload severity w))) =
           redis_db w"
proof (cases "parent_exists (temp_path file_uuid upload) w")
  case False
  from redact_classic_upload_fails [OF False] show ?thesis by simp
next
  case saved: True
  show ?thesis
  proof (cases "process_document_classic core (temp_path file_uuid upload) severity key")
    case (Inl e)
    from redact_classic_engine_raises [OF Inl saved] show ?thesis by simp
  next
    case (Inr r)
    obtain p md where r: "r = (p, md)" by (cases r)
    show ?thesis
    proof (cases "truthy md")
      case False
      from redact_classic_nothing_extracted [OF Inr [unfolded r] False saved] assms
      show ?thesis by simp
    next
      case True
      then obtain m where md: "md = Some m" by (cases md) auto
      show ?thesis
      proof (cases "redis_failure w")
        case None
        from redact_classic_stored [OF Inr [unfolded r md] True [unfolded md] None saved] assms
        show ?thesis by simp
      next
        case (Some e)
        from redact_classic_store_raises [OF Inr [unfolded r md] True [unfolded md] Some saved]
        show ?thesis by simp
      qed
    qed
  qed
qed

lemma redact_llm_success:
  assumes "fst (redact_llm_endpoint core file_uuid key doc upload severity w) = Inr resp"
  shows "headers resp =
           [(''X-Document-ID'', doc), (''X-Decryption-Key'', urlsafe_b64encode key)] \<and>
         (case process_document_llm core (temp_path file_uuid upload) severity key of
            Inl e \<Rightarrow> False
          | Inr (p, md) \<Rightarrow>
              if truthy md
              then redis_get doc
                     (snd (snd (redact_llm_endpoint core file_uuid key doc upload severity w))) =
                   Inr (map_option json_dumps md)
              else redis_db
                     (snd (snd (redact_llm_endpoint core file_uuid key doc upload severity w))) =
                   redis_db w)"
proof (cases "parent_exists (temp_path file_uuid upload) w")
  case False
  from redact_llm_upload_fails [OF False] assms show ?thesis by simp
next
  case saved: True
  show ?thesis
  proof (cases "process_document_llm core (temp_path file_uuid upload) severity key")
    case (Inl e)
    from redact_llm_engine_raises [OF Inl saved] assms show ?thesis by simp
  next
    case (Inr r)
    obtain p md where r: "r = (p, md)" by (cases r)
    show ?thesis
    proof (cases "truthy md")
      case False
      from redact_llm_nothing_extracted [OF Inr [unfolded r] False saved, of doc]
        assms Inr r False
      show ?thesis by auto
    next
      case True
      then obtain m where md: "md = Some m" by (cases md) auto
      show ?thesis
      proof (cases "redis_failure w")
        case None
        from redact_llm_stored [OF Inr [unfolded r md] True [unfolded md] None saved, of doc]
          assms Inr r True md None
        show ?thesis by (auto simp: redis_get_def)
      next
        case (Some e)
        from redact_llm_store_raises [OF Inr [unfolded r md] True [unfolded md] Some saved]
          assms
        show ?thesis by simp
      qed
    qed
  qed
qed

lemma redact_classic_success:
  assumes "fst (redact_classic_endpoint core file_uuid key doc upload severity w) = Inr resp"
  shows "headers resp =
           [(''X-Document-ID'', doc), (''X-Decryption-Key'', urlsafe_b64encode key)] \<and>
         (case process_document_classic core (temp_path file_uuid upload) severity key of
            Inl e \<Rightarrow> False
          | Inr (p, md) \<Rightarrow>
              if truthy md
              then redis_get doc
                     (snd (snd (redact_classic_endpoint core file_uuid key doc upload severity
                        w))) =
                   Inr (map_option json_dumps md)
              else redis_db
                     (snd (snd (redact_classic_endpoint core file_uuid key doc upload severity
                        w))) =
                   redis_db w)"
proof (cases "parent_exists (temp_path file_uuid upload) w")
  case False
  from redact_classic_upload_fails [OF False] assms show ?thesis by simp
next
  case saved: True
  show ?thesis
  proof (cases "process_document_classic core (temp_path file_uuid upload) severity key")
    case (Inl e)
    from redact_classic_engine_raises [OF Inl saved] assms show ?thesis by simp
  next
    case (Inr r)
    obtain p md where r: "r = (p, md)" by (cases r)
    show ?thesis
    proof (cases "truthy md")
      case False
      from redact_classic_nothing_extracted [OF Inr [unfolded r] False saved, of doc]
        assms Inr r False
      show ?thesis by auto
    next
      case True
      then obtain m where md: "md = Some m" by (cases md) auto
      show ?thesis
      proof (cases "redis_failure w")
        case None
        from redact_classic_stored [OF Inr [unfolded r md] True [unfolded md] None saved, of doc]
          assms Inr r True md None
        show ?thesis by (auto simp: redis_get_def)
      next
        case (Some e)
        from redact_classic_store_raises [OF Inr [unfolded r md] True [unfolded md] Some saved]
          assms
        show ?thesis by simp
      qed
    qed
  qed
qed

lemma unredact_early_exit:
  assumes "outcome_kind (fst (unredact_endpoint core file_uuid upload doc encoded_key w)) =
             Some SessionNotFound \<or>
           outcome_kind (fst (unredact_endpoint core file_uuid upload doc encoded_key w)) =
             Some InvalidKeyFormat"
  shows "snd (unredact_endpoint core file_uuid upload doc encoded_key w) = ([], w)"
proof (cases "redis_get doc w")
  case (Inl e)
  from unredact_store_raises [OF Inl] show ?thesis by simp
next
  case (Inr found)
  show ?thesis
  proof (cases found)
    case None
    from unredact_not_found [OF Inr [unfolded None]] show ?thesis by simp
  next
    case (Some j)
    note lookup = Inr [unfolded Some]
    show ?thesis
    proof (cases "urlsafe_b64decode encoded_key")
      case (Inl e)
      from unredact_bad_key [OF lookup Inl] show ?thesis by simp
    next
      case decoded: (Inr key)
      show ?thesis
      proof (cases "parent_exists (temp_path file_uuid upload) w")
        case False
        from unredact_upload_fails [OF lookup decoded False] show ?thesis by simp
      next
        case saved: True
        show ?thesis
        proof (cases "unredact_document core (temp_path file_uuid upload) key (json_loads j)")
          case (Inl e)
          from unredact_engine_raises [OF lookup decoded Inl saved] assms
          show ?thesis by simp
        next
          case (Inr p)
          from unredact_restored [OF lookup decoded Inr saved] assms show ?thesis by simp
        qed
      qed
    qed
  qed
qed

lemma unredact_write_needs_checks:
  assumes "files (snd (snd (unredact_endpoint core file_uuid upload doc encoded_key w))) \<noteq>
    files w"
  shows "\<exists>j key. redis_get doc w = Inr (Some j) \<and> urlsafe_b64decode encoded_key = Inr key"
proof (cases "redis_get doc w")
  case (Inl e)
  from unredact_store_raises [OF Inl] assms show ?thesis by simp
next
  case (Inr found)
  show ?thesis
  proof (cases found)
    case None
    from unredact_not_found [OF Inr [unfolded None]] assms show ?thesis by simp
  next
    case (Some j)
    note lookup = Inr [unfolded Some]
    show ?thesis
    proof (cases "urlsafe_b64decode encoded_key")
      case (Inl e)
      from unredact_bad_key [OF lookup Inl] assms show ?thesis by simp
    next
      case (Inr key)
      with lookup show ?thesis by blast
    qed
  qed
qed

lemma unredact_expired:
  assumes "redis_failure w = None" and "redis_db w doc = Some (v, expires_at)"
    and "expires_at \<le> now w"
  shows "unredact_endpoint core file_uuid upload doc encoded_key w =
    (Inl (HTTPException 404 ''Document ID not found or has expired.'' None), [], w)"
  by (rule unredact_not_found) (use assms in \<open>simp add: redis_get_def\<close>)

lemma non_ascii_key_rejected:
  "\<not> list_all is_ascii s \<Longrightarrow>
   urlsafe_b64decode s =
     Inl (PyExc ValueError ''string argument should contain only ASCII characters'')"
  by (simp add: urlsafe_b64decode_def bytes_from_decode_data_def)

lemma decrypt_empty_store:
  "decrypt_endpoint (Some Map.empty) core request =
     Inl (HTTPException 404 ''Document ID not found.'' None)"
  by (simp add: decrypt_endpoint_def)

lemma decrypt_items_complete:
  "decrypt_items dec key pii_items = Inr out \<Longrightarrow>
   map bbox out = map item_bbox pii_items \<and>
   map (\<lambda>item. dec key (encode_utf8 (encrypted_text item))) pii_items =
     map (\<lambda>d. Inr (pii_text d)) out"
  by (induction pii_items arbitrary: out) (auto split: sum.splits)

lemma decrypt_pages_complete:
  "decrypt_pages dec key ps = Inr out \<Longrightarrow>
   map fst out = map fst ps \<and>
   map (\<lambda>(page_num, pii_items). decrypt_items dec key pii_items) ps =
     map (\<lambda>(page_num, decrypted). Inr decrypted) out"
  by (induction ps arbitrary: out) (auto split: sum.splits)

text \<open>The engine of the concrete sessions meets what the specification asks of it.\<close>

lemma engine_with_items_fails_atomically: "fails_atomically engine_with_items"
  by (auto simp: fails_atomically_def item_fails_def engine_with_items_def)

lemma extracted_metadata_sealed: "sealed_with engine_with_items session_key extracted_metadata"
  by (simp add: sealed_with_def item_fails_def stored_items_def extracted_metadata_def
      engine_with_items_def)

lemma restore_fails_when_item_fails:
  assumes "fails_atomically core" and "redis_get doc w = Inr (Some j)"
    and "urlsafe_b64decode encoded_key = Inr key"
    and "item \<in> set (stored_items (json_loads j))" and "item_fails core key item"
  shows "outcome_kind (fst (unredact_endpoint core file_uuid upload doc encoded_key w)) =
    Some ProcessingError"
proof (cases "parent_exists (temp_path file_uuid upload) w")
  case False
  from unredact_upload_fails [OF assms(2, 3) False] show ?thesis by simp
next
  case saved: True
  from assms(1, 4, 5)
  have "isl (unredact_document core (temp_path file_uuid upload) key (json_loads j))"
    unfolding fails_atomically_def by blast
  then obtain e
    where "unredact_document core (temp_path file_uuid upload) key (json_loads j) = Inl e"
    by (cases "unredact_document core (temp_path file_uuid upload) key (json_loads j)") auto
  from unredact_engine_raises [OF assms(2, 3) this saved] show ?thesis by simp
qed

section \<open>Claims\<close>

text \<open>
  C1. After a redaction that extracted an item, Decrypt on the issued document id and key
  should read the entry the redaction stored and return the extracted items, for both
  engines. Both redaction endpoints store the entry under \<open>doc-1\<close> and issue the key
  \<open>AQID\<close>; \<open>decrypt_endpoint\<close> does not read that entry: it looks up the unbound name
  \<open>ENCRYPTED_DATA_STORE\<close> and ends with an unhandled \<open>NameError\<close>.
\<close>

theorem decrypt_after_redaction:
  "redact_llm_endpoint engine_with_items ''u1'' session_key ''doc-1'' report_upload 2 fresh_world =
     (Inr \<lparr>path = ''redacted_files/redacted_report.pdf'', media_type = ''application/pdf'',
           response_filename = ''redacted_report.pdf'',
           headers = [(''X-Document-ID'', ''doc-1''), (''X-Decryption-Key'', ''AQID'')]\<rparr>,
      [[''temp_uploads/u1_report.pdf'', ''redacted_files/redacted_report.pdf'']],
      stored_world) \<and>
   redact_classic_endpoint engine_with_items ''u1'' session_key ''doc-1'' report_upload 2
       fresh_world =
     (Inr \<lparr>path = ''redacted_files/redacted_report.pdf'', media_type = ''application/pdf'',
           response_filename = ''redacted_report.pdf'',
           headers = [(''X-Document-ID'', ''doc-1''), (''X-Decryption-Key'', ''AQID'')]\<rparr>,
      [[''temp_uploads/u1_report.pdf'', ''redacted_files/redacted_report.pdf'']],
      stored_world) \<and>
   redis_get ''doc-1'' stored_world = Inr (Some (json_dumps extracted_metadata)) \<and>
   decrypt_endpoint ENCRYPTED_DATA_STORE engine_with_items
       \<lparr>document_id = ''doc-1'', decryption_key = ''AQID''\<rparr> =
     Inl (Unhandled (PyExc NameError ''name 'ENCRYPTED_DATA_STORE' is not defined''))"
  by (simp only: redact_llm_fresh redact_classic_fresh stored_lookup decrypt_unbound simp_thms)

text \<open>
  C2, as stated, fails for Restore. With the session of \<open>doc-1\<close> stored and the key
  \<open>AAAA\<close> supplied instead of the issued \<open>AQID\<close>, the key decodes, the engine rejects
  it, and the request ends with status 500, which is neither DecryptionFailed (403) nor
  InvalidKeyFormat (400). And the supplied string \<open>AQID!\<close> is not the issued one, yet the
  decoder skips its last character, it decodes to the issued key, and Restore returns
  the restored file.
\<close>

theorem restore_wrong_key_counterexample:
  "urlsafe_b64encode session_key = ''AQID'' \<and>
   urlsafe_b64decode ''AAAA'' = Inr [0, 0, 0] \<and>
   redis_get ''doc-1'' stored_world = Inr (Some (json_dumps extracted_metadata)) \<and>
   fst (unredact_endpoint engine_with_items ''u2'' redacted_upload ''doc-1'' ''AAAA''
          stored_world) =
     Inl (HTTPException 500 ''An error occurred during un-redaction: InvalidToken'' None) \<and>
   outcome_kind (fst (unredact_endpoint engine_with_items ''u2'' redacted_upload ''doc-1''
          ''AAAA'' stored_world)) = Some ProcessingError \<and>
   urlsafe_b64decode ''AQID!'' = Inr session_key \<and>
   fst (unredact_endpoint engine_with_items ''u2'' redacted_upload ''doc-1'' ''AQID!''
          stored_world) =
     Inr \<lparr>path = ''redacted_files/restored_report.pdf'', media_type = ''application/pdf'',
          response_filename = ''restored_report.pdf'', headers = []\<rparr>"
  by (simp add: encoded_session_key decoded_other_key stored_lookup unredact_stored_other_key
      decoded_with_stray_character
      unredact_stored_right_key [OF stored_lookup decoded_with_stray_character
        temp_uploads_exists(3)])

text \<open>
  C2, amended. For every stored session and every supplied key that does not decode to
  the key issued for that document id, Restore fails and never returns a file: with
  InvalidKeyFormat (400) when the key does not decode, and otherwise with a processing
  error (status 500); and when one stored item fails to decrypt under the supplied key,
  the whole Restore request fails with a processing error and no partly restored result
  is returned. The restoring engine is the one of the specification: its restoration
  fails when an item fails, and the items of a session decrypt under the session's key
  only.
\<close>

theorem restore_key_failures:
  assumes "fails_atomically core" and "redis_get doc w = Inr (Some j)"
  shows "(sealed_with core issued_key (json_loads j) \<and>
          urlsafe_b64decode encoded_key \<noteq> Inr issued_key \<longrightarrow>
            outcome_kind (fst (unredact_endpoint core file_uuid upload doc encoded_key w)) =
              Some (if isl (urlsafe_b64decode encoded_key) then InvalidKeyFormat
                    else ProcessingError)) \<and>
         (\<forall>key. urlsafe_b64decode encoded_key = Inr key \<and>
                (\<exists>item \<in> set (stored_items (json_loads j)). item_fails core key item) \<longrightarrow>
            outcome_kind (fst (unredact_endpoint core file_uuid upload doc encoded_key w)) =
              Some ProcessingError)"
proof (intro conjI impI allI)
  assume session: "sealed_with core issued_key (json_loads j) \<and>
    urlsafe_b64decode encoded_key \<noteq> Inr issued_key"
  show "outcome_kind (fst (unredact_endpoint core file_uuid upload doc encoded_key w)) =
      Some (if isl (urlsafe_b64decode encoded_key) then InvalidKeyFormat else ProcessingError)"
  proof (cases "urlsafe_b64decode encoded_key")
    case (Inl e)
    from unredact_bad_key [OF assms(2) Inl] Inl show ?thesis by simp
  next
    case (Inr key)
    with session have other: "key \<noteq> issued_key" by simp
    from session obtain item where item: "item \<in> set (stored_items (json_loads j))"
      unfolding sealed_with_def by (cases "stored_items (json_loads j)") auto
    with session other have "item_fails core key item"
      unfolding sealed_with_def by blast
    from restore_fails_when_item_fails [OF assms Inr item this] Inr show ?thesis by simp
  qed
next
  fix key
  assume "urlsafe_b64decode encoded_key = Inr key \<and>
    (\<exists>item \<in> set (stored_items (json_loads j)). item_fails core key item)"
  then obtain item where "urlsafe_b64decode encoded_key = Inr key"
    and "item \<in> set (stored_items (json_loads j))" and "item_fails core key item"
    by blast
  from restore_fails_when_item_fails [OF assms this]
  show "outcome_kind (fst (unredact_endpoint core file_uuid upload doc encoded_key w)) =
      Some ProcessingError" .
qed

theorem restore_key_failures_witness:
  "fails_atomically engine_with_items \<and>
   redis_get ''doc-1'' stored_world = Inr (Some (json_dumps extracted_metadata)) \<and>
   sealed_with engine_with_items session_key extracted_metadata \<and>
   urlsafe_b64decode ''AAAA'' = Inr [0, 0, 0] \<and>
   [0, 0, 0] \<noteq> session_key \<and>
   item_fails engine_with_items [0, 0, 0]
     \<lparr>encrypted_text = ''gAAAAABm'', item_bbox = [72, 100, 200, 112]\<rparr> \<and>
   outcome_kind (fst (unredact_endpoint engine_with_items ''u2'' redacted_upload ''doc-1''
          ''AAAA'' stored_world)) = Some ProcessingError \<and>
   outcome_kind (fst (unredact_endpoint engine_with_items ''u2'' redacted_upload ''doc-1''
          ''A'' stored_world)) = Some InvalidKeyFormat"
proof -
  have fails: "item_fails engine_with_items [0, 0, 0]
      \<lparr>encrypted_text = ''gAAAAABm'', item_bbox = [72, 100, 200, 112]\<rparr>"
    by (simp add: item_fails_def engine_with_items_def session_key_def)
  have stored: "\<lparr>encrypted_text = ''gAAAAABm'', item_bbox = [72, 100, 200, 112]\<rparr> \<in>
      set (stored_items extracted_metadata)"
    by (simp add: stored_items_def extracted_metadata_def)
  from fails stored
    restore_key_failures [OF engine_with_items_fails_atomically stored_lookup,
      where issued_key = session_key and encoded_key = "''AAAA''" and file_uuid = "''u2''"
      and upload = redacted_upload]
    restore_key_failures [OF engine_with_items_fails_atomically stored_lookup,
      where issued_key = session_key and encoded_key = "''A''" and file_uuid = "''u2''"
      and upload = redacted_upload]
  show ?thesis
    by (simp add: engine_with_items_fails_atomically stored_lookup extracted_metadata_sealed
        decoded_other_key decoded_one_character other_keys_differ)
qed

text \<open>
  C3. When the engine extracts nothing (it returns no metadata, or an empty dictionary),
  the redaction writes no store entry and still returns a document id, and a later
  Restore on that id fails with SessionNotFound (404). A later Decrypt on that id should
  fail with SessionNotFound as well; it ends with the unhandled \<open>NameError\<close> instead,
  a processing error.
\<close>

theorem decrypt_after_empty_redaction:
  "redact_llm_endpoint engine_without_items ''u1'' session_key ''doc-1'' report_upload 2
       fresh_world =
     (Inr \<lparr>path = ''redacted_files/redacted_report.pdf'', media_type = ''application/pdf'',
           response_filename = ''redacted_report.pdf'',
           headers = [(''X-Document-ID'', ''doc-1''), (''X-Decryption-Key'', ''AQID'')]\<rparr>,
      [[''temp_uploads/u1_report.pdf'', ''redacted_files/redacted_report.pdf'']],
      fresh_world\<lparr>files := [''temp_uploads/u1_report.pdf'' \<mapsto> [37, 80, 68, 70]]\<rparr>) \<and>
   redact_classic_endpoint engine_without_items ''u1'' session_key ''doc-1'' report_upload 2
       fresh_world =
     (Inr \<lparr>path = ''redacted_files/redacted_report.pdf'', media_type = ''application/pdf'',
           response_filename = ''redacted_report.pdf'',
           headers = [(''X-Document-ID'', ''doc-1''), (''X-Decryption-Key'', ''AQID'')]\<rparr>,
      [[''temp_uploads/u1_report.pdf'', ''redacted_files/redacted_report.pdf'']],
      fresh_world\<lparr>files := [''temp_uploads/u1_report.pdf'' \<mapsto> [37, 80, 68, 70]]\<rparr>) \<and>
   redis_db (fresh_world\<lparr>files := [''temp_uploads/u1_report.pdf'' \<mapsto> [37, 80, 68, 70]]\<rparr>)
       ''doc-1'' = None \<and>
   fst (unredact_endpoint engine_without_items ''u2'' redacted_upload ''doc-1'' ''AQID''
          (fresh_world\<lparr>files := [''temp_uploads/u1_report.pdf'' \<mapsto> [37, 80, 68, 70]]\<rparr>)) =
     Inl (HTTPException 404 ''Document ID not found or has expired.'' None) \<and>
   outcome_kind (decrypt_endpoint ENCRYPTED_DATA_STORE engine_without_items
       \<lparr>document_id = ''doc-1'', decryption_key = ''AQID''\<rparr>) = Some ProcessingError"
proof -
  have lookup: "redis_get ''doc-1''
      (fresh_world\<lparr>files := [''temp_uploads/u1_report.pdf'' \<mapsto> [37, 80, 68, 70]]\<rparr>) =
      Inr None"
    by (simp add: redis_get_def fresh_world_def)
  have "redis_db (fresh_world\<lparr>files := [''temp_uploads/u1_report.pdf'' \<mapsto> [37, 80, 68, 70]]\<rparr>)
      ''doc-1'' = None"
    by (simp add: fresh_world_def)
  then show ?thesis
    by (simp add: redact_llm_empty redact_classic_empty unredact_not_found [OF lookup]
        decrypt_unbound)
qed

text \<open>
  C4, as stated, fails: when the engine extracts nothing, the response still carries the
  key header although no session was written to the store.
\<close>

theorem key_without_session_counterexample:
  "fst (redact_classic_endpoint engine_without_items ''u1'' session_key ''doc-1''
          report_upload 2 fresh_world) =
     Inr \<lparr>path = ''redacted_files/redacted_report.pdf'', media_type = ''application/pdf'',
          response_filename = ''redacted_report.pdf'',
          headers = [(''X-Document-ID'', ''doc-1''), (''X-Decryption-Key'', ''AQID'')]\<rparr> \<and>
   redis_db (snd (snd (redact_classic_endpoint engine_without_items ''u1'' session_key
          ''doc-1'' report_upload 2 fresh_world))) ''doc-1'' = None \<and>
   redis_db (snd (snd (redact_llm_endpoint engine_without_items ''u1'' session_key
          ''doc-1'' report_upload 2 fresh_world))) ''doc-1'' = None"
  by (simp only: redact_classic_empty redact_llm_empty fst_conv snd_conv)
    (simp add: fresh_world_def)

text \<open>
  C4, amended. A successful redaction response of either endpoint always carries the
  document id and the encoded key, and the encoded key decodes back to the generated key.
  When the engine returned non-empty metadata, the store holds exactly that metadata
  under the returned document id when the response is produced; when the engine returned
  none, the store is unchanged and the key is returned all the same.
\<close>

theorem redaction_response_pair:
  "(fst (redact_llm_endpoint core file_uuid key doc upload severity w) = Inr resp \<longrightarrow>
      headers resp =
        [(''X-Document-ID'', doc), (''X-Decryption-Key'', urlsafe_b64encode key)] \<and>
      urlsafe_b64decode (urlsafe_b64encode key) = Inr key \<and>
      (case process_document_llm core (temp_path file_uuid upload) severity key of
         Inl e \<Rightarrow> False
       | Inr (p, md) \<Rightarrow>
           if truthy md
           then redis_get doc
                  (snd (snd (redact_llm_endpoint core file_uuid key doc upload severity w))) =
                Inr (map_option json_dumps md)
           else redis_db
                  (snd (snd (redact_llm_endpoint core file_uuid key doc upload severity w))) =
                redis_db w)) \<and>
   (fst (redact_classic_endpoint core file_uuid key doc upload severity w) = Inr resp' \<longrightarrow>
      headers resp' =
        [(''X-Document-ID'', doc), (''X-Decryption-Key'', urlsafe_b64encode key)] \<and>
      urlsafe_b64decode (urlsafe_b64encode key) = Inr key \<and>
      (case process_document_classic core (temp_path file_uuid upload) severity key of
         Inl e \<Rightarrow> False
       | Inr (p, md) \<Rightarrow>
           if truthy md
           then redis_get doc
                  (snd (snd (redact_classic_endpoint core file_uuid key doc upload severity w))) =
                Inr (map_option json_dumps md)
           else redis_db
                  (snd (snd (redact_classic_endpoint core file_uuid key doc upload severity w))) =
                redis_db w))"
  using redact_llm_success [of core file_uuid key doc upload severity w resp]
    redact_classic_success [of core file_uuid key doc upload severity w resp']
  by (simp add: decode_encode)

theorem redaction_response_pair_witness:
  "fst (redact_llm_endpoint engine_with_items ''u1'' session_key ''doc-1'' report_upload 2
          fresh_world) =
     Inr \<lparr>path = ''redacted_files/redacted_report.pdf'', media_type = ''application/pdf'',
          response_filename = ''redacted_report.pdf'',
          headers = [(''X-Document-ID'', ''doc-1''), (''X-Decryption-Key'', ''AQID'')]\<rparr> \<and>
   urlsafe_b64decode ''AQID'' = Inr session_key \<and>
   redis_get ''doc-1'' (snd (snd (redact_llm_endpoint engine_with_items ''u1'' session_key
          ''doc-1'' report_upload 2 fresh_world))) =
     Inr (Some (json_dumps extracted_metadata)) \<and>
   fst (redact_classic_endpoint engine_without_items ''u1'' session_key ''doc-1''
          report_upload 2 fresh_world) =
     Inr \<lparr>path = ''redacted_files/redacted_report.pdf'', media_type = ''application/pdf'',
          response_filename = ''redacted_report.pdf'',
          headers = [(''X-Document-ID'', ''doc-1''), (''X-Decryption-Key'', ''AQID'')]\<rparr> \<and>
   redis_db (snd (snd (redact_classic_endpoint engine_without_items ''u1'' session_key
          ''doc-1'' report_upload 2 fresh_world))) = redis_db fresh_world"
  using redaction_response_pair [of engine_with_items "''u1''" session_key "''doc-1''"
      report_upload 2 fresh_world
      "\<lparr>path = ''redacted_files/redacted_report.pdf'', media_type = ''application/pdf'',
        response_filename = ''redacted_report.pdf'',
        headers = [(''X-Document-ID'', ''doc-1''), (''X-Decryption-Key'', ''AQID'')]\<rparr>"]
    redaction_response_pair [of engine_without_items "''u1''" session_key "''doc-1''"
      report_upload 2 fresh_world _
      "\<lparr>path = ''redacted_files/redacted_report.pdf'', media_type = ''application/pdf'',
        response_filename = ''redacted_report.pdf'',
        headers = [(''X-Document-ID'', ''doc-1''), (''X-Decryption-Key'', ''AQID'')]\<rparr>"]
  by (simp add: redact_llm_fresh redact_classic_empty encoded_session_key
      engine_with_items_fields engine_without_items_fields truthy_extracted)

text \<open>
  C5, as stated, fails for Restore. The key \<open>A\<close> is rejected by the decoder, yet on a
  document id with no stored entry the request ends with SessionNotFound (404), because
  the lookup comes first. The key \<open>!!!!\<close> is no URL-safe Base64 text, yet the decoder
  skips its characters and returns the empty key; the request reaches the engine and ends
  with status 500, not with InvalidKeyFormat.
\<close>

theorem malformed_key_counterexample:
  "urlsafe_b64decode ''A'' =
     Inl (PyExc BinasciiError
       (''Invalid base64-encoded string: number of data characters (1) '' @
        ''cannot be 1 more than a multiple of 4'')) \<and>
   outcome_kind (fst (unredact_endpoint engine_with_items ''u2'' redacted_upload ''doc-9''
          ''A'' stored_world)) = Some SessionNotFound \<and>
   urlsafe_b64decode ''!!!!'' = Inr [] \<and>
   redis_get ''doc-1'' stored_world = Inr (Some (json_dumps extracted_metadata)) \<and>
   outcome_kind (fst (unredact_endpoint engine_with_items ''u2'' redacted_upload ''doc-1''
          ''!!!!'' stored_world)) = Some ProcessingError"
  by (simp add: decoded_one_character decoded_non_alphabet stored_lookup
      unredact_not_found [OF stored_lookup_other] unredact_stored_non_alphabet_key)

text \<open>
  C5, amended. For every key string that \<open>urlsafe_b64decode\<close> rejects, Restore never
  returns a result and writes nothing: on a document id whose entry is stored and not
  expired it fails with InvalidKeyFormat (400); when the entry is absent or expired it
  fails with SessionNotFound (404) first; only an exception of the store client itself is
  left unhandled.
\<close>

theorem restore_rejected_key:
  assumes "urlsafe_b64decode encoded_key = Inl e"
  shows "unredact_endpoint core file_uuid upload doc encoded_key w =
     (case redis_get doc w of
        Inl store_error \<Rightarrow> (Inl (Unhandled store_error), [], w)
      | Inr None \<Rightarrow>
          (Inl (HTTPException 404 ''Document ID not found or has expired.'' None), [], w)
      | Inr (Some j) \<Rightarrow>
          (Inl (HTTPException 400 ''Invalid decryption key format.'' None), [], w))"
proof (cases "redis_get doc w")
  case (Inl store_error)
  from unredact_store_raises [OF Inl] Inl show ?thesis by simp
next
  case (Inr found)
  show ?thesis
  proof (cases found)
    case None
    from unredact_not_found [OF Inr [unfolded None]] Inr None show ?thesis by simp
  next
    case (Some j)
    from unredact_bad_key [OF Inr [unfolded Some] assms] Inr Some show ?thesis by simp
  qed
qed

theorem restore_rejected_key_witness:
  "urlsafe_b64decode ''A'' =
     Inl (PyExc BinasciiError
       (''Invalid base64-encoded string: number of data characters (1) '' @
        ''cannot be 1 more than a multiple of 4'')) \<and>
   unredact_endpoint engine_with_items ''u2'' redacted_upload ''doc-1'' ''A'' stored_world =
     (Inl (HTTPException 400 ''Invalid decryption key format.'' None), [], stored_world)"
  using restore_rejected_key [OF decoded_one_character, of engine_with_items "''u2''"
      redacted_upload "''doc-1''" stored_world]
  by (simp add: stored_lookup decoded_one_character)

text \<open>
  C6. Both redaction endpoints write the entry with a time-to-live of 86400 seconds: from
  a store whose clock reads 0, the entry of \<open>doc-1\<close> expires at 86400. One second before
  that, Restore with the issued key succeeds; once 86400 seconds have passed it fails
  with SessionNotFound (404), by the same response as for the never-stored \<open>doc-9\<close>.
  Decrypt should fail in the same way; it ends with the unhandled \<open>NameError\<close> instead,
  a processing error.
\<close>

theorem decrypt_after_expiry:
  "snd (snd (redact_llm_endpoint engine_with_items ''u1'' session_key ''doc-1'' report_upload 2
          fresh_world)) = stored_world \<and>
   snd (snd (redact_classic_endpoint engine_with_items ''u1'' session_key ''doc-1''
          report_upload 2 fresh_world)) = stored_world \<and>
   redis_db stored_world ''doc-1'' = Some (json_dumps extracted_metadata, now fresh_world + 86400) \<and>
   outcome_kind (fst (unredact_endpoint engine_with_items ''u2'' redacted_upload ''doc-1''
          ''AQID'' (elapse 86399 stored_world))) = None \<and>
   fst (unredact_endpoint engine_with_items ''u2'' redacted_upload ''doc-1'' ''AQID''
          (elapse 86400 stored_world)) =
     Inl (HTTPException 404 ''Document ID not found or has expired.'' None) \<and>
   fst (unredact_endpoint engine_with_items ''u2'' redacted_upload ''doc-9'' ''AQID''
          (elapse 86400 stored_world)) =
     Inl (HTTPException 404 ''Document ID not found or has expired.'' None) \<and>
   outcome_kind (decrypt_endpoint ENCRYPTED_DATA_STORE engine_with_items
       \<lparr>document_id = ''doc-1'', decryption_key = ''AQID''\<rparr>) = Some ProcessingError"
proof -
  have "redis_db stored_world ''doc-1'' =
      Some (json_dumps extracted_metadata, now fresh_world + 86400)"
    by (simp add: stored_world_def fresh_world_def)
  then show ?thesis
    by (simp add: redact_llm_fresh redact_classic_fresh
        unredact_stored_right_key [OF elapsed_lookup(1) decoded_session_key
          temp_uploads_exists(4)]
        unredact_not_found [OF elapsed_lookup(2)] unredact_not_found [OF elapsed_lookup(3)]
        decrypt_unbound)
qed




text \<open>
  C8. The transport encoding of a key is URL-safe and reversible: decoding the encoded
  key gives back exactly the key, for every byte string; every character of the encoding
  is a letter, a digit, \<open>-\<close>, \<open>_\<close> or the padding \<open>=\<close>; and the length of the encoding
  is fixed by the length of the key (four characters for every three bytes, rounded up),
  so keys of one length encode to strings of one length.
\<close>

theorem key_transport_encoding:
  "urlsafe_b64decode (urlsafe_b64encode k) = Inr k \<and>
   list_all is_urlsafe_char (urlsafe_b64encode k) \<and>
   length (urlsafe_b64encode k) = 4 * ((length k + 2) div 3)"
  by (simp add: decode_encode urlsafe_b64encode_chars length_urlsafe_b64encode)

text \<open>
  C9. Every temporary file of a request should be scheduled for deletion on every exit
  path. When the engine has produced the redacted artifact and the store write then
  raises, both redaction endpoints schedule the saved upload only: the artifact
  \<open>redacted_files/redacted_report.pdf\<close> that the engine returned is in no cleanup task,
  while on the success path it is.
\<close>

theorem cleanup_after_store_failure:
  "process_document_llm engine_with_items ''temp_uploads/u1_report.pdf'' 2 session_key =
     Inr (''redacted_files/redacted_report.pdf'', Some extracted_metadata) \<and>
   process_document_classic engine_with_items ''temp_uploads/u1_report.pdf'' 2 session_key =
     Inr (''redacted_files/redacted_report.pdf'', Some extracted_metadata) \<and>
   fst (snd (redact_llm_endpoint engine_with_items ''u1'' session_key ''doc-1'' report_upload 2
          disconnected_world)) = [[''temp_uploads/u1_report.pdf'']] \<and>
   fst (snd (redact_classic_endpoint engine_with_items ''u1'' session_key ''doc-1''
          report_upload 2 disconnected_world)) = [[''temp_uploads/u1_report.pdf'']] \<and>
   fst (redact_llm_endpoint engine_with_items ''u1'' session_key ''doc-1'' report_upload 2
          disconnected_world) =
     Inl (HTTPException 500 ''An error occurred: Connection refused'' None) \<and>
   fst (snd (redact_llm_endpoint engine_with_items ''u1'' session_key ''doc-1'' report_upload 2
          fresh_world)) =
     [[''temp_uploads/u1_report.pdf'', ''redacted_files/redacted_report.pdf'']]"
  by (simp add: engine_with_items_fields redact_llm_disconnected redact_classic_disconnected
      redact_llm_fresh)

text \<open>
  C10. Restore writes the uploaded artifact to disk only after the store lookup and the
  key decoding have both succeeded: a request that ends with SessionNotFound or
  InvalidKeyFormat leaves the world as it was and schedules no task, and a request that
  changed the files found the entry and decoded the key.
\<close>

theorem restore_writes_after_checks:
  "(outcome_kind (fst (unredact_endpoint core file_uuid upload doc encoded_key w)) =
      Some SessionNotFound \<or>
    outcome_kind (fst (unredact_endpoint core file_uuid upload doc encoded_key w)) =
      Some InvalidKeyFormat \<longrightarrow>
      snd (unredact_endpoint core file_uuid upload doc encoded_key w) = ([], w)) \<and>
   (files (snd (snd (unredact_endpoint core file_uuid upload doc encoded_key w))) \<noteq> files w \<longrightarrow>
      (\<exists>j key. redis_get doc w = Inr (Some j) \<and> urlsafe_b64decode encoded_key = Inr key))"
  using unredact_early_exit [of core file_uuid upload doc encoded_key w]
    unredact_write_needs_checks [of core file_uuid upload doc encoded_key w]
  by blast

theorem restore_writes_after_checks_witness:
  "outcome_kind (fst (unredact_endpoint engine_with_items ''u2'' redacted_upload ''doc-9''
          ''AQID'' stored_world)) = Some SessionNotFound \<and>
   snd (unredact_endpoint engine_with_items ''u2'' redacted_upload ''doc-9'' ''AQID''
          stored_world) = ([], stored_world) \<and>
   outcome_kind (fst (unredact_endpoint engine_with_items ''u2'' redacted_upload ''doc-1''
          ''A'' stored_world)) = Some InvalidKeyFormat \<and>
   snd (unredact_endpoint engine_with_items ''u2'' redacted_upload ''doc-1'' ''A''
          stored_world) = ([], stored_world) \<and>
   files (snd (snd (unredact_endpoint engine_with_items ''u2'' redacted_upload ''doc-1''
          ''AQID'' stored_world))) \<noteq> files stored_world \<and>
   redis_get ''doc-1'' stored_world = Inr (Some (json_dumps extracted_metadata)) \<and>
   urlsafe_b64decode ''AQID'' = Inr session_key"
proof -
  have changed: "files (snd (snd (unredact_endpoint engine_with_items ''u2'' redacted_upload
      ''doc-1'' ''AQID'' stored_world))) \<noteq> files stored_world"
  proof
    assume "files (snd (snd (unredact_endpoint engine_with_items ''u2'' redacted_upload
      ''doc-1'' ''AQID'' stored_world))) = files stored_world"
    then have "files (snd (snd (unredact_endpoint engine_with_items ''u2'' redacted_upload
      ''doc-1'' ''AQID'' stored_world))) ''temp_uploads/u2_redacted_report.pdf'' =
      files stored_world ''temp_uploads/u2_redacted_report.pdf''"
      by simp
    then show False
      unfolding unredact_stored_right_key [OF stored_lookup decoded_session_key
          temp_uploads_exists(3)]
      by (simp add: stored_world_def)
  qed
  from changed
    restore_writes_after_checks [of engine_with_items "''u2''" redacted_upload "''doc-9''"
      "''AQID''" stored_world]
    restore_writes_after_checks [of engine_with_items "''u2''" redacted_upload "''doc-1''"
      "''A''" stored_world]
    restore_writes_after_checks [of engine_with_items "''u2''" redacted_upload "''doc-1''"
      "''AQID''" stored_world]
  show ?thesis
    by (simp add: unredact_not_found [OF stored_lookup_other]
        unredact_bad_key [OF stored_lookup decoded_one_character] stored_lookup
        decoded_session_key)
qed

end
